theory Spec2Isabelle
  imports Main
begin

section \<open>JavaScript built-ins used by the client\<close>

text \<open>
  Strings are lists of 8-bit characters. \<open>startsWith\<close> is the method of
  \<open>String.prototype\<close> with that name, \<open>includes_str s sub\<close> is \<open>s.includes(sub)\<close>.
\<close>

fun startsWith :: "string \<Rightarrow> string \<Rightarrow> bool" where
  "startsWith s [] = True"
| "startsWith [] (p # ps) = False"
| "startsWith (c # cs) (p # ps) = (c = p \<and> startsWith cs ps)"

fun includes_str :: "string \<Rightarrow> string \<Rightarrow> bool" where
  "includes_str [] sub = (sub = [])"
| "includes_str (c # cs) sub = (startsWith (c # cs) sub \<or> includes_str cs sub)"

text \<open>
  The white space of \<open>String.prototype.trim\<close> and of \<open>Number.parseInt\<close>, as far as it
  lies in the 8-bit range: TAB, LF, VT, FF, CR, SP and NBSP.
\<close>

definition isWhiteSpace :: "char \<Rightarrow> bool" where
  "isWhiteSpace c = (of_char c \<in> set [0x09, 0x0A, 0x0B, 0x0C, 0x0D, 0x20, 0xA0 :: nat])"

definition trim :: "string \<Rightarrow> string" where
  "trim s = rev (dropWhile isWhiteSpace (rev (dropWhile isWhiteSpace s)))"

definition isDigit :: "char \<Rightarrow> bool" where
  "isDigit c = (48 \<le> (of_char c :: nat) \<and> (of_char c :: nat) \<le> 57)"

definition digitValue :: "char \<Rightarrow> int" where
  "digitValue c = int (of_char c) - 48"

text \<open>
  A JavaScript number, as far as the client computes one: \<open>NaN\<close>, or the Number value of
  an integer (\<open>Num i\<close> stands for the double nearest to \<open>i\<close>; negative zero is \<open>Num 0\<close>).
\<close>

datatype number = NaN | Num int

text \<open>
  \<open>Number.parseInt(s, 10)\<close> on a string: skip leading white space, read an optional
  sign, take the longest prefix of decimal digits; no digit gives \<open>NaN\<close>.
\<close>

definition parseInt10 :: "string \<Rightarrow> number" where
  "parseInt10 s =
     (let t = dropWhile isWhiteSpace s;
          neg = (t \<noteq> [] \<and> hd t = CHR ''-'');
          u = (if t \<noteq> [] \<and> (hd t = CHR ''+'' \<or> hd t = CHR ''-'') then tl t else t);
          z = takeWhile isDigit u
      in if z = [] then NaN
         else let mathInt = foldl (\<lambda>a c. 10 * a + digitValue c) 0 z
              in Num (if neg then - mathInt else mathInt))"

text \<open>
  \<open>Number.parseInt(v, 10)\<close> on the result of \<open>Headers.get\<close>, which is a string or
  \<open>null\<close>: the argument is first converted to a string, and \<open>null\<close> becomes the text
  \<open>null\<close>.
\<close>

definition parseInt :: "string option \<Rightarrow> number" where
  "parseInt v = parseInt10 (case v of None \<Rightarrow> ''null'' | Some s \<Rightarrow> s)"

text \<open>
  A string begins with an integer when a decimal digit follows its leading white space and
  an optional sign.
\<close>

definition hasLeadingInteger :: "string \<Rightarrow> bool" where
  "hasLeadingInteger s =
     (let t = dropWhile isWhiteSpace s;
          u = (if t \<noteq> [] \<and> (hd t = CHR ''+'' \<or> hd t = CHR ''-'') then tl t else t)
      in u \<noteq> [] \<and> isDigit (hd u))"

text \<open>The decimal text of an integer, as a template literal or \<open>toString\<close> renders it.\<close>

fun showNat :: "nat \<Rightarrow> string" where
  "showNat n = (if n < 10 then [''0123456789'' ! n] else showNat (n div 10) @ [''0123456789'' ! (n mod 10)])"

declare showNat.simps [simp del]

definition showInt :: "int \<Rightarrow> string" where
  "showInt i = (if i < 0 then CHR ''-'' # showNat (nat (- i)) else showNat (nat i))"

text \<open>
  A property value of a plain object whose type the source leaves open
  (\<open>Record<string, unknown>\<close>): \<open>null\<close>, \<open>undefined\<close>, or any other value, given by its
  string conversion.
\<close>

datatype jsval = Null | Undef | Val string

text \<open>A plain object is its list of own enumerable properties, in enumeration order.\<close>

type_synonym 'v obj = "(string \<times> 'v) list"

section \<open>constants.ts\<close>

definition RETRY_ERROR_CODES :: "int list" where
  "RETRY_ERROR_CODES = [500, 502, 503, 504]"

definition CSRF_TOKEN_HEADER_NAME :: string where
  "CSRF_TOKEN_HEADER_NAME = ''x-csrf-token''"

definition USER_AGENT_HEADER_NAME :: string where
  "USER_AGENT_HEADER_NAME = ''user-agent''"

definition RATELIMIT_LIMIT_HEADER :: string where
  "RATELIMIT_LIMIT_HEADER = ''x-ratelimit-limit''"

definition RATELIMIT_REMAINING_HEADER :: string where
  "RATELIMIT_REMAINING_HEADER = ''x-ratelimit-remaining''"

definition RATELIMIT_RESET_HEADER :: string where
  "RATELIMIT_RESET_HEADER = ''x-ratelimit-reset''"

text \<open>\<open>s.replace(REMOVE_PROTOCOL_REGEX, "")\<close> with the pattern \<open>^https?:\/\/\<close>.\<close>

definition removeProtocol :: "string \<Rightarrow> string" where
  "removeProtocol s =
     (if startsWith s ''https://'' then drop 8 s
      else if startsWith s ''http://'' then drop 7 s
      else s)"

section \<open>utils.ts\<close>

definition filterObject :: "jsval obj \<Rightarrow> jsval obj" where
  "filterObject ob = filter (\<lambda>(key, v). v \<noteq> Null \<and> v \<noteq> Undef) ob"

section \<open>Header collections\<close>

text \<open>
  A \<open>Headers\<close> object maps lower-cased names to values. \<open>append\<close> joins the values of a
  repeated name with a comma and a space. Names and values are taken to be valid. Lower
  case is that of the 26 letters \<open>A\<close> to \<open>Z\<close> (codes 65 to 90): the bit of value 32 is set.
\<close>

type_synonym Headers = "string \<rightharpoonup> string"

definition lowerChar :: "char \<Rightarrow> char" where
  "lowerChar c =
     (if 65 \<le> (of_char c :: nat) \<and> (of_char c :: nat) \<le> 90
      then (case c of Char b0 b1 b2 b3 b4 b5 b6 b7 \<Rightarrow> Char b0 b1 b2 b3 b4 True b6 b7)
      else c)"

definition lowerCase :: "string \<Rightarrow> string" where
  "lowerCase s = map lowerChar s"

definition headers_has :: "Headers \<Rightarrow> string \<Rightarrow> bool" where
  "headers_has h name = (h (lowerCase name) \<noteq> None)"

definition headers_get :: "Headers \<Rightarrow> string \<Rightarrow> string option" where
  "headers_get h name = h (lowerCase name)"

definition headers_set :: "Headers \<Rightarrow> string \<Rightarrow> string \<Rightarrow> Headers" where
  "headers_set h name v = h(lowerCase name \<mapsto> v)"

definition headers_append :: "Headers \<Rightarrow> string \<Rightarrow> string \<Rightarrow> Headers" where
  "headers_append h name v =
     (case h (lowerCase name) of
        None \<Rightarrow> h(lowerCase name \<mapsto> v)
      | Some v0 \<Rightarrow> h(lowerCase name \<mapsto> v0 @ '', '' @ v))"

text \<open>\<open>new Headers(record)\<close>: every property is appended, its value converted to a string.\<close>

fun jsvalToString :: "jsval \<Rightarrow> string" where
  "jsvalToString Null = ''null''"
| "jsvalToString Undef = ''undefined''"
| "jsvalToString (Val s) = s"

definition headers_of_record :: "jsval obj \<Rightarrow> Headers" where
  "headers_of_record ob = foldl (\<lambda>h (key, v). headers_append h key (jsvalToString v)) Map.empty ob"


section \<open>Data model\<close>

subsection \<open>Values exchanged with the collaborators\<close>

text \<open>A JSON value; a number is kept as its literal text.\<close>

datatype json =
    JNull
  | JBool bool
  | JNumber string
  | JString string
  | JArray "json list"
  | JObject "(string \<times> json) list"

text \<open>
  A \<open>URLSearchParams\<close> object is the list of its entries. \<open>set\<close> overwrites the first
  entry of the name and deletes the others, or adds the entry at the end.
\<close>

type_synonym URLSearchParams = "(string \<times> string) list"

fun params_set :: "URLSearchParams \<Rightarrow> string \<Rightarrow> string \<Rightarrow> URLSearchParams" where
  "params_set [] name v = [(name, v)]"
| "params_set ((k, w) # ps) name v =
     (if k = name then (name, v) # filter (\<lambda>(k', w'). k' \<noteq> name) ps
      else (k, w) # params_set ps name v)"

definition params_append :: "URLSearchParams \<Rightarrow> string \<Rightarrow> string \<Rightarrow> URLSearchParams" where
  "params_append ps name v = ps @ [(name, v)]"

text \<open>\<open>new URLSearchParams(record)\<close>: one entry for each property, the value as a string.\<close>

definition params_of_record :: "jsval obj \<Rightarrow> URLSearchParams" where
  "params_of_record ob = map (\<lambda>(key, v). (key, jsvalToString v)) ob"

text \<open>The parts of a \<open>URL\<close> object that the client reads or writes.\<close>

record URL =
  protocol :: string
  hostname :: string
  port :: string
  pathname :: string
  searchParams :: URLSearchParams
  hash :: string

text \<open>
  The raw \<open>Response\<close> of the transport. \<open>res_body\<close> is the payload, which \<open>text()\<close>
  returns; that a body can be read only once is not modelled.
\<close>

record Response =
  res_ok :: bool
  res_status :: int
  res_statusText :: string
  res_headers :: Headers
  res_url :: string
  res_redirected :: bool
  res_body :: string

text \<open>
  A structured error of \<open>parse-roblox-errors\<close> is a plain object. The client only
  renders its property values: an array by \<open>JSON.stringify\<close>, any other value by its
  string conversion. A value carries that text.
\<close>

datatype errvalue = ArrayValue string | OtherValue string

type_synonym AnyError = "errvalue obj"

record ParsedChallenge =
  challengeType :: string
  challengeId :: string
  challengeBase64Metadata :: string

subsection \<open>HTTPClient.ts: the types\<close>

datatype HTTPMethod = GET | POST | PATCH | PUT | DELETE | OPTIONS

datatype ExpectContentType =
    ExpectJson
  | ExpectJsonWithBigInts
  | ExpectText
  | ExpectArrayBuffer
  | ExpectBlob
  | ExpectFormData
  | ExpectDom
  | ExpectNone

datatype FormDataValue = FormString string | FormBlob string

record FormDataSetRequest =
  fd_value :: FormDataValue
  fileName :: "string option"

text \<open>
  A \<open>URLSearchParams\<close> object that the caller passes in is an object of the heap, named
  by its address; a plain object is passed by its properties.
\<close>

datatype SearchInit = SearchRecord "jsval obj" | SearchParams nat

datatype HeadersInit = HeadersRecord "jsval obj" | HeadersObject Headers

datatype HTTPRequestBodyContent =
    BodyJson json
  | BodyJsonWithBigInts json
  | BodyText string
  | BodyFormdata "FormDataSetRequest obj"
  | BodyFile string
  | BodyUrlencoded SearchInit
  | BodyUnknown string

datatype ErrorHandling = BEDEV1 | BEDEV2 | NoErrorHandling

datatype AccountToken = AccountString string | AccountNumber int

text \<open>
  \<open>HTTPRequest<T>\<close>, which is \<open>InternalHTTPRequest<T>\<close> and four more properties; one
  record serves for both. An optional property is an \<open>option\<close>. The numbers of a request
  (the retry budget, a numeric account token) are integers. The challenge handler is a
  function of the challenge it is given.
\<close>

record HTTPRequest =
  "method" :: "HTTPMethod option"
  url :: string
  search :: "SearchInit option"
  headers :: "HeadersInit option"
  body :: "HTTPRequestBodyContent option"
  expect :: "ExpectContentType option"
  includeCredentials :: "bool option"
  camelizeResponse :: "bool option"
  cache :: "string option"
  bypassCORS :: "bool option"
  accountToken :: "AccountToken option"
  overrideDeviceType :: "string option"
  includeCsrf :: "bool option"
  retries :: "int option"
  errorHandling :: "ErrorHandling option"
  handleChallenge :: "(ParsedChallenge \<Rightarrow> ParsedChallenge option) option"

record Ratelimit =
  limit :: string
  remaining :: number
  reset :: number

text \<open>
  The value of a response body: \<open>undefined\<close>, or what one of the decoders produced.
\<close>

datatype Body =
    BodyUndefined
  | JsonBody json
  | TextBody string
  | ArrayBufferBody string
  | BlobBody string
  | FormDataBody "(string \<times> string) list"
  | DomBody string

text \<open>
  What the transport is handed as its body, and the configuration of a client. The signer
  (\<open>hbaClient.generateBaseHeaders\<close>) is a function of its four arguments. The
  camelization function (\<open>CamelizeObjectFn\<close>) is given a JSON value and returns \<open>any\<close>:
  whatever body value it likes, \<open>undefined\<close> among them. A configured transport is known
  by a name; what a transport answers is part of the state.
\<close>

datatype Payload =
    PayloadString string
  | PayloadParams URLSearchParams
  | PayloadBytes string
  | PayloadFormData "(string \<times> FormDataValue \<times> string option) list"
  | PayloadUnknown string

datatype FetchFn = GlobalFetch | CustomFetch string

record HTTPClientDomains =
  main :: string
  cdn :: string

record HTTPClientConstructorOptions =
  domains :: HTTPClientDomains
  hbaClient :: "(string \<Rightarrow> HTTPMethod option \<Rightarrow> bool option \<Rightarrow> Payload option \<Rightarrow> string obj) option"
  onWebsite :: "bool option"
  fetch :: "FetchFn option"
  bypassCORSFetch :: "FetchFn option"
  camelizeObject :: "(json \<Rightarrow> Body) option"
  overrideDeviceTypeHeaderName :: "string option"
  overrideDeviceTypeToUserAgent :: "(string \<Rightarrow> string) option"
  trackingUserAgent :: "string option"
  trackingSearchParam :: "string option"
  accountTokenSearchParam :: "string option"
  isDev :: "bool option"

subsection \<open>HTTPResponse.ts: the types\<close>

record HTTPResponseStatus =
  ok :: bool
  code :: int
  status_text :: string

record HTTPResponse =
  status :: HTTPResponseStatus
  hr_headers :: Headers
  hr_url :: string
  hr_redirected :: bool
  hr_response :: Response
  hr_request :: HTTPRequest
  hr_body :: Body
  hr_ratelimit :: "Ratelimit option"

subsection \<open>RESTError.ts\<close>

record RESTError =
  message :: string
  isHttpError :: bool
  errors :: "AnyError list option"
  httpCode :: "int option"
  response :: "HTTPResponse option"
  ratelimit :: "Ratelimit option"

text \<open>
  Everything the client can throw: its own \<open>RESTError\<close>, the \<open>SyntaxError\<close> of a JSON
  parser, the \<open>TypeError\<close> of \<open>new URL\<close>, of \<open>FormData.set\<close> and of
  \<open>Response.formData\<close>, and the rejection of the transport.
\<close>

datatype Exception =
    ThrownRESTError RESTError
  | SyntaxError string
  | TypeError string
  | FetchRejected string

subsection \<open>The environment\<close>

text \<open>
  The names and functions that the client takes from outside this repository: the
  constant \<open>DEFAULT_ACCOUNT_TOKEN\<close> (imported from \<open>constants.ts\<close>, which does not
  define it), the package \<open>parse-roblox-errors\<close>, the two JSON codecs, the \<open>URL\<close>
  parser, the page (\<open>location.href\<close>, and the \<open>data-token\<close> attribute of the element
  \<open>[name="csrf-token"]\<close> if the document has one), the form decoder of a response, and
  the text that a built-in function or object of the engine converts to when it is used
  as a header value. A parser that throws returns \<open>None\<close>.
\<close>

record Env =
  DEFAULT_ACCOUNT_TOKEN :: string
  GENERIC_CHALLENGE_TYPE_HEADER :: string
  GENERIC_CHALLENGE_ID_HEADER :: string
  GENERIC_CHALLENGE_METADATA_HEADER :: string
  parseBEDEV1Error :: "Response \<Rightarrow> AnyError list"
  parseBEDEV2Error :: "Response \<Rightarrow> AnyError list"
  parseChallengeHeaders :: "Headers \<Rightarrow> ParsedChallenge option"
  JSON_parse :: "string \<Rightarrow> json option"
  JSONv2_parse :: "string \<Rightarrow> json option"
  JSON_stringify :: "json \<Rightarrow> string"
  JSONv2_stringify :: "json \<Rightarrow> string"
  URL_parse :: "string \<Rightarrow> string option \<Rightarrow> URL option"
  location_href :: string
  document_csrf_token :: "string option"
  formData_decode :: "Response \<Rightarrow> (string \<times> string) list option"
  inherited_text :: "string \<Rightarrow> string"

text \<open>Truthiness of an optional string and of an optional boolean.\<close>

definition truthyString :: "string option \<Rightarrow> bool" where
  "truthyString v = (case v of None \<Rightarrow> False | Some s \<Rightarrow> s \<noteq> [])"

definition truthyBool :: "bool option \<Rightarrow> bool" where
  "truthyBool v = (v = Some True)"

section \<open>HTTPResponse.ts\<close>

text \<open>
  \<open>HTTPResponse.parseBody\<close>. A missing \<open>expect\<close> takes the JSON branch (\<open>!request.expect\<close>);
  the last line of the source, \<open>clone[request.expect]()\<close>, is reached for \<open>text\<close>,
  \<open>arrayBuffer\<close>, \<open>blob\<close> and \<open>formData\<close>. In the JSON branch the parsed value is
  replaced by the result of the camelization function, when the request asks for it and
  the client has one, and returned as it is.
\<close>

definition parseBody ::
  "Env \<Rightarrow> HTTPRequest \<Rightarrow> Response \<Rightarrow> (json \<Rightarrow> Body) option \<Rightarrow> Exception + Body" where
  "parseBody env request resp camelize =
     (if expect request = Some ExpectNone
         \<or> headers_get (res_headers resp) ''content-length'' = Some ''0''
         \<or> res_status resp = 204
      then Inr BodyUndefined
      else if expect request = Some ExpectJson
              \<or> expect request = None
              \<or> expect request = Some ExpectJsonWithBigInts
      then (let trimmed = trim (res_body resp);
                parsed = (if expect request = Some ExpectJsonWithBigInts
                          then JSONv2_parse env trimmed
                          else JSON_parse env trimmed)
            in case parsed of
                 None \<Rightarrow> Inl (SyntaxError trimmed)
               | Some b \<Rightarrow>
                   (case camelize of
                      Some f \<Rightarrow> if truthyBool (camelizeResponse request) then Inr (f b)
                                else Inr (JsonBody b)
                    | None \<Rightarrow> Inr (JsonBody b)))
      else if expect request = Some ExpectDom then Inr (DomBody (res_body resp))
      else (case expect request of
              Some ExpectText \<Rightarrow> Inr (TextBody (res_body resp))
            | Some ExpectArrayBuffer \<Rightarrow> Inr (ArrayBufferBody (res_body resp))
            | Some ExpectBlob \<Rightarrow> Inr (BlobBody (res_body resp))
            | _ \<Rightarrow> (case formData_decode env resp of
                      None \<Rightarrow> Inl (TypeError ''formData'')
                    | Some fd \<Rightarrow> Inr (FormDataBody fd))))"

text \<open>The constructor of \<open>HTTPResponse\<close>.\<close>

definition new_HTTPResponse ::
  "HTTPRequest \<Rightarrow> Response \<Rightarrow> Body \<Rightarrow> Ratelimit option \<Rightarrow> HTTPResponse" where
  "new_HTTPResponse request resp b rl =
     \<lparr> status = \<lparr> ok = res_ok resp, code = res_status resp, status_text = res_statusText resp \<rparr>,
       hr_headers = res_headers resp,
       hr_url = res_url resp,
       hr_redirected = res_redirected resp,
       hr_response = resp,
       hr_request = request,
       hr_body = b,
       hr_ratelimit = rl \<rparr>"

text \<open>\<open>HTTPResponse.init\<close>.\<close>

definition HTTPResponse_init ::
  "Env \<Rightarrow> HTTPRequest \<Rightarrow> Response \<Rightarrow> Ratelimit option \<Rightarrow> (json \<Rightarrow> Body) option
     \<Rightarrow> Exception + HTTPResponse" where
  "HTTPResponse_init env request resp rl camelize =
     (case parseBody env request resp camelize of
        Inl e \<Rightarrow> Inl e
      | Inr b \<Rightarrow> Inr (new_HTTPResponse request resp b rl))"

section \<open>HTTPClient.ts\<close>

subsection \<open>The CSRF token store\<close>

text \<open>
  A slot holds \<open>MaybePromise<string | undefined>\<close>: \<open>undefined\<close>, a string, or a promise
  of one of the two. A promise is an object and so truthy; \<open>await\<close> gives what it
  resolves to.
\<close>

datatype Token = TokenUndefined | TokenString string | TokenPromise "string option"

fun truthyToken :: "Token \<Rightarrow> bool" where
  "truthyToken TokenUndefined = False"
| "truthyToken (TokenString s) = (s \<noteq> [])"
| "truthyToken (TokenPromise r) = True"

fun awaitToken :: "Token \<Rightarrow> string option" where
  "awaitToken TokenUndefined = None"
| "awaitToken (TokenString s) = Some s"
| "awaitToken (TokenPromise r) = r"

text \<open>
  \<open>csrfTokens.accounts\<close> is the object literal \<open>{}\<close>: its own properties, and the object
  it inherits from. That is \<open>Object.prototype\<close>, until an assignment to the key
  \<open>__proto__\<close> replaces it; of the values that the code assigns only a promise, being an
  object, can replace it.
\<close>

datatype Prototype = ObjectPrototype | PromisePrototype "string option"

record PlainObject =
  own :: "string \<rightharpoonup> Token"
  prototype :: Prototype

text \<open>
  The string-keyed properties of \<open>Object.prototype\<close> and of \<open>Promise.prototype\<close>, and the
  names that an object inherits through its prototype. A promise has no own properties;
  it inherits from \<open>Promise.prototype\<close>, which inherits from \<open>Object.prototype\<close>.
\<close>

definition objectPrototypeNames :: "string list" where
  "objectPrototypeNames =
     [''constructor'', ''__defineGetter__'', ''__defineSetter__'', ''hasOwnProperty'',
      ''__lookupGetter__'', ''__lookupSetter__'', ''isPrototypeOf'', ''propertyIsEnumerable'',
      ''toString'', ''valueOf'', ''__proto__'', ''toLocaleString'']"

definition promisePrototypeNames :: "string list" where
  "promisePrototypeNames = [''constructor'', ''then'', ''catch'', ''finally'']"

definition inheritedNames :: "Prototype \<Rightarrow> string list" where
  "inheritedNames p =
     (case p of
        ObjectPrototype \<Rightarrow> objectPrototypeNames
      | PromisePrototype r \<Rightarrow> promisePrototypeNames @ objectPrototypeNames)"

text \<open>
  What reading a property gives: a token, or the built-in function or object that is
  inherited under a name. Such a value is an object, so truthy, and \<open>await\<close> leaves it as
  it is.
\<close>

datatype Lookup = Found Token | Inherited string

fun truthyLookup :: "Lookup \<Rightarrow> bool" where
  "truthyLookup (Found t) = truthyToken t"
| "truthyLookup (Inherited n) = True"

text \<open>
  \<open>object[key]\<close>. An own property wins. Otherwise the key \<open>__proto__\<close> is the accessor of
  \<open>Object.prototype\<close>, whose getter returns the prototype of the object; any other
  inherited name gives the inherited value; any other key gives \<open>undefined\<close>.
\<close>

definition object_get :: "PlainObject \<Rightarrow> string \<Rightarrow> Lookup" where
  "object_get obj key =
     (case own obj key of
        Some v \<Rightarrow> Found v
      | None \<Rightarrow>
          if key = ''__proto__''
          then (case prototype obj of
                  ObjectPrototype \<Rightarrow> Inherited ''__proto__''
                | PromisePrototype r \<Rightarrow> Found (TokenPromise r))
          else if key \<in> set (inheritedNames (prototype obj)) then Inherited key
          else Found TokenUndefined)"

text \<open>
  \<open>object[key] = v\<close>. Without an own property of that name, the key \<open>__proto__\<close> reaches
  the setter of the accessor: it makes an object the new prototype and ignores a
  string and \<open>undefined\<close>. Every other inherited property is a writable data property,
  so the assignment creates or overwrites an own property.
\<close>

definition object_set :: "PlainObject \<Rightarrow> string \<Rightarrow> Token \<Rightarrow> PlainObject" where
  "object_set obj key v =
     (if key = ''__proto__'' \<and> own obj key = None
      then (case v of
              TokenPromise r \<Rightarrow> obj\<lparr> prototype := PromisePrototype r \<rparr>
            | _ \<Rightarrow> obj)
      else obj\<lparr> own := (own obj)(key \<mapsto> v) \<rparr>)"

record CsrfTokens =
  accounts :: PlainObject
  ip :: Token

definition initialCsrfTokens :: CsrfTokens where
  "initialCsrfTokens =
     \<lparr> accounts = \<lparr> own = Map.empty, prototype = ObjectPrototype \<rparr>, ip = TokenUndefined \<rparr>"

text \<open>The property key of an account identifier, and its truthiness.\<close>

fun accountKey :: "AccountToken \<Rightarrow> string" where
  "accountKey (AccountString s) = s"
| "accountKey (AccountNumber i) = showInt i"

fun truthyAccount :: "AccountToken option \<Rightarrow> bool" where
  "truthyAccount None = False"
| "truthyAccount (Some (AccountString s)) = (s \<noteq> [])"
| "truthyAccount (Some (AccountNumber i)) = (i \<noteq> 0)"

definition accountOrDefault :: "Env \<Rightarrow> AccountToken option \<Rightarrow> AccountToken" where
  "accountOrDefault env a = (case a of None \<Rightarrow> AccountString (DEFAULT_ACCOUNT_TOKEN env) | Some t \<Rightarrow> t)"

definition getCsrfToken ::
  "Env \<Rightarrow> HTTPClientConstructorOptions \<Rightarrow> CsrfTokens \<Rightarrow> bool option \<Rightarrow> AccountToken option \<Rightarrow> Lookup" where
  "getCsrfToken env opts store authorized accountToken0 =
     (let accountToken = accountOrDefault env accountToken0;
          token = (if truthyBool authorized
                   then object_get (accounts store) (accountKey accountToken)
                   else Found (ip store))
      in if accountToken = AccountString (DEFAULT_ACCOUNT_TOKEN env)
            \<and> truthyBool authorized
            \<and> \<not> truthyLookup token
            \<and> truthyBool (onWebsite opts)
         then (case document_csrf_token env of
                 None \<Rightarrow> Found TokenUndefined
               | Some s \<Rightarrow> if s = [] then Found TokenUndefined else Found (TokenString s))
         else token)"

definition setCsrfToken ::
  "Env \<Rightarrow> CsrfTokens \<Rightarrow> Token \<Rightarrow> bool option \<Rightarrow> AccountToken option \<Rightarrow> CsrfTokens" where
  "setCsrfToken env store v authorized accountToken0 =
     (let accountToken = accountOrDefault env accountToken0;
          store1 = (if truthyBool authorized
                    then store\<lparr> accounts := object_set (accounts store) (accountKey accountToken) v \<rparr>
                    else store)
      in store1\<lparr> ip := v \<rparr>)"

subsection \<open>The rate-limit parser\<close>

definition parseRatelimitHeaders :: "Headers \<Rightarrow> Ratelimit option" where
  "parseRatelimitHeaders h =
     (if \<not> headers_has h RATELIMIT_LIMIT_HEADER then None
      else Some \<lparr> limit = the (headers_get h RATELIMIT_LIMIT_HEADER),
                  remaining = parseInt (headers_get h RATELIMIT_REMAINING_HEADER),
                  reset = parseInt (headers_get h RATELIMIT_RESET_HEADER) \<rparr>)"


subsection \<open>The state\<close>

text \<open>
  What a call can change: the token store of the client, the heap of the caller's
  \<open>URLSearchParams\<close> objects (an address is an index), and the transport. The transport
  is given by the answers it will make, in order (\<open>Inl\<close> is a rejection); \<open>sent\<close> logs every
  call of it. A run that asks for more answers than \<open>incoming\<close> holds has not ended
  within them: its result is \<open>None\<close>.
\<close>

record RequestInit =
  ri_method :: HTTPMethod
  ri_headers :: Headers
  ri_cache :: "string option"
  ri_body :: "Payload option"
  ri_credentials :: "string option"

record State =
  csrfTokens :: CsrfTokens
  heap :: "URLSearchParams list"
  incoming :: "(string + Response) list"
  sent :: "(FetchFn \<times> URL \<times> RequestInit) list"

definition heap_get :: "URLSearchParams list \<Rightarrow> nat \<Rightarrow> URLSearchParams" where
  "heap_get hp a = (if a < length hp then hp ! a else [])"

definition heap_alloc :: "URLSearchParams list \<Rightarrow> URLSearchParams \<Rightarrow> nat \<times> URLSearchParams list" where
  "heap_alloc hp ps = (length hp, hp @ [ps])"

definition heap_set :: "URLSearchParams list \<Rightarrow> nat \<Rightarrow> string \<Rightarrow> string \<Rightarrow> URLSearchParams list" where
  "heap_set hp a name v = hp[a := params_set (heap_get hp a) name v]"

subsection \<open>The URL builder\<close>

definition new_URL :: "Env \<Rightarrow> string \<Rightarrow> string option \<Rightarrow> Exception + URL" where
  "new_URL env s base = (case URL_parse env s base of None \<Rightarrow> Inl (TypeError s) | Some u \<Rightarrow> Inr u)"

definition canParseURL :: "Env \<Rightarrow> string \<Rightarrow> bool" where
  "canParseURL env s = (URL_parse env s None \<noteq> None)"

definition formatRequestUrl ::
  "Env \<Rightarrow> HTTPClientConstructorOptions \<Rightarrow> HTTPRequest \<Rightarrow> string \<Rightarrow> URLSearchParams list
     \<Rightarrow> (Exception + URL) \<times> URLSearchParams list" where
  "formatRequestUrl env opts request proto hp =
     (if includes_str (url request) (cdn (domains opts))
      then (if canParseURL env (url request)
            then new_URL env (url request) None
            else new_URL env (proto @ ''://'' @ removeProtocol (url request)) None, hp)
      else
        let (search0, hp0) =
              (case search request of
                 None \<Rightarrow> heap_alloc hp []
               | Some (SearchParams a) \<Rightarrow> (a, hp)
               | Some (SearchRecord ob) \<Rightarrow> heap_alloc hp (params_of_record (filterObject ob)));
            hp1 = (if truthyAccount (accountToken request) \<and> truthyString (accountTokenSearchParam opts)
                   then heap_set hp0 search0 (the (accountTokenSearchParam opts))
                          (accountKey (the (accountToken request)))
                   else hp0);
            hp2 = (if truthyString (overrideDeviceType request)
                   then (if truthyString (overrideDeviceTypeHeaderName opts)
                         then heap_set hp1 search0 (the (overrideDeviceTypeHeaderName opts))
                                (the (overrideDeviceType request))
                         else hp1)
                   else if truthyString (trackingSearchParam opts)
                   then heap_set hp1 search0 (the (trackingSearchParam opts)) []
                   else hp1);
            formattedUrl =
              (if startsWith (url request) ''/''
                  \<or> (canParseURL env (url request) \<and> truthyBool (isDev opts)
                       \<and> \<not> startsWith (url request) ''localhost:'')
               then new_URL env (url request) (Some (location_href env))
               else new_URL env (proto @ ''://'' @ removeProtocol (url request)) None)
        in case formattedUrl of
             Inl e \<Rightarrow> (Inl e, hp2)
           | Inr u \<Rightarrow>
               let u1 = u\<lparr> searchParams :=
                           foldl (\<lambda>ps (key, v). params_append ps key v) (searchParams u) (heap_get hp2 search0) \<rparr>;
                   u2 = (if truthyBool (isDev opts) \<and> hostname u1 = ''localhost'' \<and> protocol u1 = ''https:''
                         then u1\<lparr> protocol := ''http:'' \<rparr>
                         else u1)
               in (Inr u2, hp2))"

subsection \<open>The body encoder\<close>

text \<open>
  \<open>FormData.set\<close> with a file name takes a \<open>Blob\<close>; with a string it throws a
  \<open>TypeError\<close>.
\<close>

fun formdata_set ::
  "(string \<times> FormDataValue \<times> string option) list \<Rightarrow> string \<Rightarrow> FormDataValue \<times> string option
     \<Rightarrow> (string \<times> FormDataValue \<times> string option) list" where
  "formdata_set [] name e = [(name, e)]"
| "formdata_set ((k, w) # fs) name e =
     (if k = name then (name, e) # filter (\<lambda>(k', w'). k' \<noteq> name) fs
      else (k, w) # formdata_set fs name e)"

fun formdata_of ::
  "(string \<times> FormDataValue \<times> string option) list \<Rightarrow> FormDataSetRequest obj
     \<Rightarrow> Exception + (string \<times> FormDataValue \<times> string option) list" where
  "formdata_of fd [] = Inr fd"
| "formdata_of fd ((name, v) # ob) =
     (if truthyString (fileName v)
      then (case fd_value v of
              FormString s \<Rightarrow> Inl (TypeError name)
            | FormBlob b \<Rightarrow> formdata_of (formdata_set fd name (FormBlob b, fileName v)) ob)
      else formdata_of (formdata_set fd name (fd_value v, None)) ob)"

definition formatBody ::
  "Env \<Rightarrow> URLSearchParams list \<Rightarrow> HTTPRequestBodyContent \<Rightarrow> Exception + (Payload \<times> string option)" where
  "formatBody env hp b =
     (case b of
        BodyFormdata ob \<Rightarrow>
          (case formdata_of [] ob of
             Inl e \<Rightarrow> Inl e
           | Inr fd \<Rightarrow> Inr (PayloadFormData fd, None))
      | BodyJson v \<Rightarrow> Inr (PayloadString (JSON_stringify env v), Some ''application/json'')
      | BodyUrlencoded (SearchParams a) \<Rightarrow>
          Inr (PayloadParams (heap_get hp a), Some ''application/x-www-form-urlencoded'')
      | BodyUrlencoded (SearchRecord ob) \<Rightarrow>
          Inr (PayloadParams (params_of_record ob), Some ''application/x-www-form-urlencoded'')
      | BodyUnknown v \<Rightarrow> Inr (PayloadUnknown v, None)
      | BodyJsonWithBigInts v \<Rightarrow> Inr (PayloadString (JSONv2_stringify env v), Some ''application/json'')
      | BodyText t \<Rightarrow> Inr (PayloadString t, None)
      | BodyFile bytes \<Rightarrow> Inr (PayloadBytes bytes, None))"

subsection \<open>The header assembler\<close>

definition new_Headers :: "HeadersInit option \<Rightarrow> Headers" where
  "new_Headers init =
     (case init of
        None \<Rightarrow> Map.empty
      | Some (HeadersObject h) \<Rightarrow> h
      | Some (HeadersRecord ob) \<Rightarrow> headers_of_record (filterObject ob))"

definition handleRequestHeaders ::
  "HTTPClientConstructorOptions \<Rightarrow> HTTPRequest \<Rightarrow> string option \<Rightarrow> Payload option \<Rightarrow> Headers" where
  "handleRequestHeaders opts request contentType newBody =
     (let h0 = new_Headers (headers request);
          h1 = (if truthyString (overrideDeviceType request)
                then (case overrideDeviceTypeToUserAgent opts of
                        Some toUserAgent \<Rightarrow>
                          if \<not> truthyString (overrideDeviceTypeHeaderName opts)
                          then headers_set h0 USER_AGENT_HEADER_NAME (toUserAgent (the (overrideDeviceType request)))
                          else h0
                      | None \<Rightarrow> h0)
                else if truthyString (trackingUserAgent opts) \<and> \<not> truthyString (trackingSearchParam opts)
                then headers_set h0 USER_AGENT_HEADER_NAME (the (trackingUserAgent opts))
                else h0);
          h2 = (case hbaClient opts of
                  Some generateBaseHeaders \<Rightarrow>
                    foldl (\<lambda>h (key, v). headers_set h key v) h1
                      (generateBaseHeaders (url request) (method request) (includeCredentials request) newBody)
                | None \<Rightarrow> h1)
      in if truthyString contentType then headers_set h2 ''content-type'' (the contentType) else h2)"

subsection \<open>The low-level dispatcher\<close>

definition chooseFetch :: "HTTPClientConstructorOptions \<Rightarrow> HTTPRequest \<Rightarrow> FetchFn" where
  "chooseFetch opts request =
     (if truthyBool (bypassCORS request) \<and> bypassCORSFetch opts \<noteq> None
      then the (bypassCORSFetch opts)
      else (case fetch opts of None \<Rightarrow> GlobalFetch | Some f \<Rightarrow> f))"

text \<open>The method \<open>_httpRequest\<close>: one attempt.\<close>

definition internal_httpRequest ::
  "Env \<Rightarrow> HTTPClientConstructorOptions \<Rightarrow> HTTPRequest \<Rightarrow> State
     \<Rightarrow> (Exception + HTTPResponse) option \<times> State" where
  "internal_httpRequest env opts request st =
     (case formatRequestUrl env opts request ''https'' (heap st) of
        (Inl e, hp) \<Rightarrow> (Some (Inl e), st\<lparr> heap := hp \<rparr>)
      | (Inr u, hp) \<Rightarrow>
          (case (case body request of
                   None \<Rightarrow> Inr (None, None)
                 | Some b \<Rightarrow>
                     (case formatBody env hp b of
                        Inl e \<Rightarrow> Inl e
                      | Inr (newBody, contentType) \<Rightarrow> Inr (Some newBody, contentType))) of
             Inl e \<Rightarrow> (Some (Inl e), st\<lparr> heap := hp \<rparr>)
           | Inr (newBody, contentType) \<Rightarrow>
               let requestInfo =
                     \<lparr> ri_method = (case method request of None \<Rightarrow> GET | Some m \<Rightarrow> m),
                       ri_headers = handleRequestHeaders opts request contentType newBody,
                       ri_cache = cache request,
                       ri_body = newBody,
                       ri_credentials =
                         (if truthyBool (includeCredentials request) then Some ''include''
                          else if includeCredentials request = Some False then Some ''omit''
                          else None) \<rparr>;
                   st1 = st\<lparr> heap := hp, sent := sent st @ [(chooseFetch opts request, u, requestInfo)] \<rparr>
               in case incoming st of
                    [] \<Rightarrow> (None, st1)
                  | Inl reason # rest \<Rightarrow> (Some (Inl (FetchRejected reason)), st1\<lparr> incoming := rest \<rparr>)
                  | Inr resp # rest \<Rightarrow>
                      (Some (HTTPResponse_init env request resp None (camelizeObject opts)),
                       st1\<lparr> incoming := rest \<rparr>)))"

subsection \<open>The orchestrator\<close>

fun methodName :: "HTTPMethod \<Rightarrow> string" where
  "methodName GET = ''GET''"
| "methodName POST = ''POST''"
| "methodName PATCH = ''PATCH''"
| "methodName PUT = ''PUT''"
| "methodName DELETE = ''DELETE''"
| "methodName OPTIONS = ''OPTIONS''"

fun errorHandlingName :: "ErrorHandling \<Rightarrow> string" where
  "errorHandlingName BEDEV1 = ''BEDEV1''"
| "errorHandlingName BEDEV2 = ''BEDEV2''"
| "errorHandlingName NoErrorHandling = ''none''"

fun valueAsString :: "errvalue \<Rightarrow> string" where
  "valueAsString (ArrayValue s) = s"
| "valueAsString (OtherValue s) = s"

text \<open>The inner loop over the properties of one error: \<open>errorAsString\<close>.\<close>

definition errorAsString :: "AnyError \<Rightarrow> string" where
  "errorAsString err =
     foldl (\<lambda>acc (key, v). acc @ key @ '': '' @ [CHR 0x22] @ valueAsString v @ [CHR 0x22]) [] err"

text \<open>The outer loop over the errors: \<open>errorsAsString\<close>.\<close>

definition errorsAsString :: "AnyError list \<Rightarrow> string" where
  "errorsAsString errs =
     foldl (\<lambda>acc err. acc @ (if acc \<noteq> [] then [CHR 0x0A] else []) @ errorAsString err) [] errs"

definition errorMessage :: "HTTPRequest \<Rightarrow> HTTPResponse \<Rightarrow> AnyError list \<Rightarrow> string" where
  "errorMessage request resp errs =
     ''HTTP '' @ showInt (code (status resp)) @ '' from ''
       @ methodName (case method request of None \<Rightarrow> GET | Some m \<Rightarrow> m) @ '' '' @ hr_url resp
       @ (if errorsAsString errs \<noteq> []
          then [CHR 0x0A, CHR 0x0A]
                 @ errorHandlingName (case errorHandling request of None \<Rightarrow> BEDEV1 | Some e \<Rightarrow> e)
                 @ '' errors:'' @ [CHR 0x0A] @ errorsAsString errs
          else [])"

definition isRobloxApiRequest :: "HTTPClientConstructorOptions \<Rightarrow> HTTPRequest \<Rightarrow> bool" where
  "isRobloxApiRequest opts request = includes_str (url request) (main (domains opts))"

text \<open>The structured errors of a response, by the parser that the mode selects.\<close>

definition parseErrors :: "Env \<Rightarrow> HTTPRequest \<Rightarrow> Response \<Rightarrow> AnyError list" where
  "parseErrors env request resp =
     (if (case errorHandling request of None \<Rightarrow> BEDEV1 | Some e \<Rightarrow> e) = BEDEV1
      then parseBEDEV1Error env resp
      else parseBEDEV2Error env resp)"

text \<open>
  The challenge step of the loop: the new challenge that the caller's handler returns,
  if the step applies and the handler returns one.
\<close>

definition newChallenge :: "Env \<Rightarrow> HTTPClientConstructorOptions \<Rightarrow> HTTPRequest \<Rightarrow> HTTPResponse \<Rightarrow> ParsedChallenge option" where
  "newChallenge env opts request resp =
     (if isRobloxApiRequest opts request \<and> \<not> ok (status resp)
      then (case handleChallenge request of
              None \<Rightarrow> None
            | Some handler \<Rightarrow>
                (case parseChallengeHeaders env (hr_headers resp) of
                   None \<Rightarrow> None
                 | Some parsedChallenge \<Rightarrow> handler parsedChallenge))
      else None)"

lemma internal_httpRequest_consumes:
  "internal_httpRequest env opts request st = (Some (Inr resp), st1)
     \<Longrightarrow> length (incoming st1) < length (incoming st)"
  by (auto simp: internal_httpRequest_def Let_def
           split: prod.splits sum.splits option.splits list.splits)

text \<open>The \<open>while (true)\<close> loop of \<open>httpRequest\<close>, from a header collection and a retry budget.\<close>

function httpRequest_loop ::
  "Env \<Rightarrow> HTTPClientConstructorOptions \<Rightarrow> HTTPRequest \<Rightarrow> Headers \<Rightarrow> int option \<Rightarrow> State
     \<Rightarrow> (Exception + HTTPResponse) option \<times> State" where
  "httpRequest_loop env opts request hdrs budget st =
     (case internal_httpRequest env opts
             (request\<lparr> expect := Some ExpectNone, headers := Some (HeadersObject hdrs) \<rparr>) st of
        (None, st1) \<Rightarrow> (None, st1)
      | (Some (Inl e), st1) \<Rightarrow> (Some (Inl e), st1)
      | (Some (Inr resp), st1) \<Rightarrow>
          if isRobloxApiRequest opts request
             \<and> code (status resp) = 403
             \<and> headers_has (hr_headers resp) CSRF_TOKEN_HEADER_NAME
          then
            let csrfToken = the (headers_get (hr_headers resp) CSRF_TOKEN_HEADER_NAME)
            in httpRequest_loop env opts request
                 (headers_set hdrs CSRF_TOKEN_HEADER_NAME csrfToken) budget
                 (st1\<lparr> csrfTokens :=
                         setCsrfToken env (csrfTokens st1) (TokenString csrfToken)
                           (includeCredentials request) (accountToken request) \<rparr>)
          else
            let ratelimitHeaders = parseRatelimitHeaders (hr_headers resp)
            in case newChallenge env opts request resp of
                 Some c \<Rightarrow>
                   httpRequest_loop env opts request
                     (headers_set
                        (headers_set
                           (headers_set hdrs (GENERIC_CHALLENGE_TYPE_HEADER env) (challengeType c))
                           (GENERIC_CHALLENGE_ID_HEADER env) (challengeId c))
                        (GENERIC_CHALLENGE_METADATA_HEADER env) (challengeBase64Metadata c))
                     budget st1
               | None \<Rightarrow>
                   if errorHandling request \<noteq> Some NoErrorHandling \<and> \<not> ok (status resp)
                   then
                     if (case budget of None \<Rightarrow> False | Some r \<Rightarrow> r > 0)
                        \<and> code (status resp) \<in> set RETRY_ERROR_CODES
                     then httpRequest_loop env opts request hdrs (Some (the budget - 1)) st1
                     else
                       let errs = parseErrors env request (hr_response resp)
                       in (Some (Inl (ThrownRESTError
                             \<lparr> message = errorMessage request resp errs,
                               isHttpError = True,
                               errors = Some errs,
                               httpCode = Some (code (status resp)),
                               response = Some resp,
                               ratelimit = ratelimitHeaders \<rparr>)), st1)
                   else
                     (Some (HTTPResponse_init env request (hr_response resp) ratelimitHeaders
                              (camelizeObject opts)), st1))"
  by pat_completeness auto
termination
  by (relation "measure (\<lambda>(env, opts, request, hdrs, budget, st). length (incoming st))")
     (auto dest: internal_httpRequest_consumes [OF sym])

declare httpRequest_loop.simps [simp del]

text \<open>The method \<open>httpRequest\<close>.\<close>

definition httpRequest ::
  "Env \<Rightarrow> HTTPClientConstructorOptions \<Rightarrow> HTTPRequest \<Rightarrow> State
     \<Rightarrow> (Exception + HTTPResponse) option \<times> State" where
  "httpRequest env opts request st =
     (let method0 = (case method request of None \<Rightarrow> GET | Some m \<Rightarrow> m);
          hdrs = new_Headers (headers request);
          hdrs1 =
            (if isRobloxApiRequest opts request
                \<and> (case includeCsrf request of Some b \<Rightarrow> b | None \<Rightarrow> method0 \<noteq> GET)
             then (case getCsrfToken env opts (csrfTokens st)
                           (includeCredentials request) (accountToken request) of
                     Found t \<Rightarrow>
                       (case awaitToken t of
                          None \<Rightarrow> hdrs
                        | Some csrfToken \<Rightarrow>
                            if csrfToken \<noteq> [] then headers_set hdrs CSRF_TOKEN_HEADER_NAME csrfToken
                            else hdrs)
                   | Inherited n \<Rightarrow> headers_set hdrs CSRF_TOKEN_HEADER_NAME (inherited_text env n))
             else hdrs)
      in httpRequest_loop env opts request hdrs1 (retries request) st)"


text \<open>
  A request reaches the transport when neither its URL nor its body makes the dispatcher
  throw before the call. Whether they do depends on neither the heap nor the header
  collection.
\<close>

definition reachesTransport :: "Env \<Rightarrow> HTTPClientConstructorOptions \<Rightarrow> HTTPRequest \<Rightarrow> bool" where
  "reachesTransport env opts request =
     (\<not> isl (fst (formatRequestUrl env opts request ''https'' []))
      \<and> (case body request of None \<Rightarrow> True | Some b \<Rightarrow> \<not> isl (formatBody env [] b)))"

text \<open>The Typed Response of an attempt: the body is not decoded, no snapshot is attached.\<close>

definition attempt :: "HTTPRequest \<Rightarrow> Headers \<Rightarrow> Response \<Rightarrow> HTTPResponse" where
  "attempt request hdrs r =
     new_HTTPResponse (request\<lparr> expect := Some ExpectNone, headers := Some (HeadersObject hdrs) \<rparr>)
       r BodyUndefined None"

text \<open>
  The two retries of the loop that spend no budget, as conditions on the raw response: the
  token rotation, and a challenge that the handler of the caller answers with a new one.
\<close>

definition csrfRotates :: "HTTPClientConstructorOptions \<Rightarrow> HTTPRequest \<Rightarrow> Response \<Rightarrow> bool" where
  "csrfRotates opts request r =
     (isRobloxApiRequest opts request \<and> res_status r = 403
      \<and> headers_has (res_headers r) CSRF_TOKEN_HEADER_NAME)"

definition challengeAnswered :: "Env \<Rightarrow> HTTPClientConstructorOptions \<Rightarrow> HTTPRequest \<Rightarrow> Response \<Rightarrow> bool" where
  "challengeAnswered env opts request r = (newChallenge env opts request (attempt request Map.empty r) \<noteq> None)"

text \<open>
  The JSON branch of the decoder ending in \<open>undefined\<close>: the request asks for
  camelization, the client has a camelization function, and the function returns
  \<open>undefined\<close> for the parsed value.
\<close>

definition camelizedToUndefined ::
  "Env \<Rightarrow> HTTPRequest \<Rightarrow> Response \<Rightarrow> (json \<Rightarrow> Body) option \<Rightarrow> bool" where
  "camelizedToUndefined env request resp cam =
     ((expect request = Some ExpectJson \<or> expect request = None
         \<or> expect request = Some ExpectJsonWithBigInts)
      \<and> truthyBool (camelizeResponse request)
      \<and> (case cam of
            None \<Rightarrow> False
          | Some f \<Rightarrow>
              (case (if expect request = Some ExpectJsonWithBigInts
                     then JSONv2_parse env (trim (res_body resp))
                     else JSON_parse env (trim (res_body resp))) of
                 None \<Rightarrow> False
               | Some b \<Rightarrow> f b = BodyUndefined)))"

text \<open>Whether an exception is the \<open>RESTError\<close> of the client.\<close>

fun isRESTError :: "Exception \<Rightarrow> bool" where
  "isRESTError (ThrownRESTError e) = True"
| "isRESTError other = False"

text \<open>The message of a thrown \<open>RESTError\<close>, if that is how a call ended.\<close>

fun thrownMessage :: "(Exception + HTTPResponse) option \<Rightarrow> string option" where
  "thrownMessage (Some (Inl (ThrownRESTError e))) = Some (message e)"
| "thrownMessage other = None"

text \<open>Texts joined by a separator, and one property of an error as the message shows it.\<close>

fun joinWith :: "string \<Rightarrow> string list \<Rightarrow> string" where
  "joinWith sep [] = []"
| "joinWith sep [x] = x"
| "joinWith sep (x # y # ys) = x @ sep @ joinWith sep (y # ys)"

definition pairText :: "string \<times> errvalue \<Rightarrow> string" where
  "pairText p = fst p @ '': '' @ [CHR 0x22] @ valueAsString (snd p) @ [CHR 0x22]"

section \<open>An example client\<close>

text \<open>
  A concrete environment, configuration and request, for evaluating the client. The
  parsers of the environment know only the few texts that the examples use: the JSON
  parsers accept \<open>{}\<close> and \<open>null\<close>, the URL parser accepts four absolute URLs, and the BEDEV1
  parser finds two errors in the body \<open>two errors\<close>.
\<close>

definition exampleURL :: "string \<Rightarrow> string \<Rightarrow> URLSearchParams \<Rightarrow> URL" where
  "exampleURL host path query =
     \<lparr> protocol = ''https:'', hostname = host, port = [], pathname = path,
       searchParams = query, hash = [] \<rparr>"

definition exampleURLs :: "(string \<times> URL) list" where
  "exampleURLs =
     [(''https://apis.roblox.com/v1/thing'', exampleURL ''apis.roblox.com'' ''/v1/thing'' []),
      (''https://example.com/page'', exampleURL ''example.com'' ''/page'' []),
      (''https://tr.rbxcdn.com/img?x=1'', exampleURL ''tr.rbxcdn.com'' ''/img'' [(''x'', ''1'')]),
      (''https://tr.rbxcdn.com/img'', exampleURL ''tr.rbxcdn.com'' ''/img'' [])]"

definition exampleErrors :: "AnyError list" where
  "exampleErrors =
     [[(''code'', OtherValue ''1''), (''message'', OtherValue ''first'')],
      [(''code'', OtherValue ''2''), (''message'', OtherValue ''second'')]]"

definition exampleJSON :: "string \<Rightarrow> json option" where
  "exampleJSON s = (if s = ''{}'' then Some (JObject []) else if s = ''null'' then Some JNull else None)"

definition exampleEnv :: Env where
  "exampleEnv =
     \<lparr> DEFAULT_ACCOUNT_TOKEN = ''default'',
       GENERIC_CHALLENGE_TYPE_HEADER = ''rblx-challenge-type'',
       GENERIC_CHALLENGE_ID_HEADER = ''rblx-challenge-id'',
       GENERIC_CHALLENGE_METADATA_HEADER = ''rblx-challenge-metadata'',
       parseBEDEV1Error = (\<lambda>r. if res_body r = ''two errors'' then exampleErrors else []),
       parseBEDEV2Error = (\<lambda>r. []),
       parseChallengeHeaders = (\<lambda>h. None),
       JSON_parse = exampleJSON,
       JSONv2_parse = exampleJSON,
       JSON_stringify = (\<lambda>v. if v = JNull then ''null'' else ''{}''),
       JSONv2_stringify = (\<lambda>v. if v = JNull then ''null'' else ''{}''),
       URL_parse = (\<lambda>s base. map_of exampleURLs s),
       location_href = ''https://www.roblox.com/home'',
       document_csrf_token = None,
       formData_decode = (\<lambda>r. None),
       inherited_text = (\<lambda>n. ''[object Object]'') \<rparr>"

definition exampleOptions :: HTTPClientConstructorOptions where
  "exampleOptions =
     \<lparr> domains = \<lparr> main = ''roblox.com'', cdn = ''rbxcdn.com'' \<rparr>,
       hbaClient = None,
       onWebsite = None,
       fetch = None,
       bypassCORSFetch = None,
       camelizeObject = None,
       overrideDeviceTypeHeaderName = None,
       overrideDeviceTypeToUserAgent = None,
       trackingUserAgent = None,
       trackingSearchParam = None,
       accountTokenSearchParam = None,
       isDev = None \<rparr>"

definition exampleRequest :: "string \<Rightarrow> HTTPRequest" where
  "exampleRequest u =
     \<lparr> method = None, url = u, search = None, headers = None, body = None, expect = None,
       includeCredentials = None, camelizeResponse = None, cache = None, bypassCORS = None,
       accountToken = None, overrideDeviceType = None, includeCsrf = None, retries = None,
       errorHandling = None, handleChallenge = None \<rparr>"

text \<open>A response of the transport; \<open>ok\<close> is a status from 200 to 299, as \<open>fetch\<close> sets it.\<close>

definition exampleResponse :: "int \<Rightarrow> Headers \<Rightarrow> string \<Rightarrow> Response" where
  "exampleResponse st h b =
     \<lparr> res_ok = (200 \<le> st \<and> st \<le> 299), res_status = st, res_statusText = [],
       res_headers = h, res_url = ''https://apis.roblox.com/v1/thing'', res_redirected = False,
       res_body = b \<rparr>"

definition exampleState :: "(string + Response) list \<Rightarrow> State" where
  "exampleState answers =
     \<lparr> csrfTokens = initialCsrfTokens, heap = [], incoming = answers, sent = [] \<rparr>"

text \<open>
  A configuration with a tracking parameter, and a request whose \<open>search\<close> is the
  \<open>URLSearchParams\<close> object of the caller at address 0.
\<close>

definition trackingOptions :: HTTPClientConstructorOptions where
  "trackingOptions = exampleOptions\<lparr> trackingSearchParam := Some ''t'' \<rparr>"

definition searchRequest :: HTTPRequest where
  "searchRequest = (exampleRequest ''https://example.com/page'')\<lparr> search := Some (SearchParams 0) \<rparr>"

section \<open>Properties\<close>

subsection \<open>Evaluation\<close>

lemmas eval_headers = headers_of_record_def headers_append_def headers_has_def headers_get_def
  headers_set_def lowerCase_def lowerChar_def

lemmas eval_names = RATELIMIT_LIMIT_HEADER_def RATELIMIT_REMAINING_HEADER_def
  RATELIMIT_RESET_HEADER_def CSRF_TOKEN_HEADER_NAME_def USER_AGENT_HEADER_NAME_def

lemmas eval_example = exampleEnv_def exampleOptions_def exampleRequest_def exampleResponse_def
  exampleState_def exampleURLs_def exampleURL_def exampleErrors_def exampleJSON_def
  initialCsrfTokens_def

lemmas eval_dispatch = internal_httpRequest_def formatRequestUrl_def formatBody_def
  handleRequestHeaders_def new_Headers_def chooseFetch_def HTTPResponse_init_def parseBody_def
  new_HTTPResponse_def canParseURL_def new_URL_def removeProtocol_def heap_get_def heap_set_def
  heap_alloc_def truthyString_def truthyBool_def params_of_record_def params_append_def
  filterObject_def attempt_def

subsection \<open>The rate-limit parser\<close>

lemma takeWhile_Nil_iff: "(takeWhile P xs = []) = (xs = [] \<or> \<not> P (hd xs))"
  by (cases xs) auto

lemma parseInt10_NaN_iff: "(parseInt10 s = NaN) = (\<not> hasLeadingInteger s)"
  by (auto simp: parseInt10_def hasLeadingInteger_def Let_def takeWhile_Nil_iff)

lemma parseInt_null: "parseInt None = NaN"
  by (simp add: parseInt_def parseInt10_def isWhiteSpace_def isDigit_def)

text \<open>\<open>parseInt10\<close> reads the decimal text of every integer back.\<close>

lemma digit_nth: "k < 10 \<Longrightarrow> isDigit (''0123456789'' ! k) \<and> digitValue (''0123456789'' ! k) = int k
   \<and> \<not> isWhiteSpace (''0123456789'' ! k) \<and> ''0123456789'' ! k \<noteq> CHR ''+'' \<and> ''0123456789'' ! k \<noteq> CHR ''-''"
proof -
  assume "k < 10"
  then have "k = 0 \<or> k = 1 \<or> k = 2 \<or> k = 3 \<or> k = 4 \<or> k = 5 \<or> k = 6 \<or> k = 7 \<or> k = 8 \<or> k = 9"
    by arith
  then show ?thesis
    by (elim disjE) (simp_all add: isDigit_def digitValue_def isWhiteSpace_def)
qed

lemma showNat_digits: "showNat n \<noteq> [] \<and> (\<forall>c \<in> set (showNat n). isDigit c)"
proof (induction n rule: showNat.induct)
  case (1 n)
  show ?case
  proof (cases "n < 10")
    case True
    then show ?thesis using digit_nth [of n] by (subst (1 2) showNat.simps) simp
  next
    case False
    with 1 digit_nth [of "n mod 10"] show ?thesis
      by (subst (1 2) showNat.simps) auto
  qed
qed

lemma showNat_value: "foldl (\<lambda>a c. 10 * a + digitValue c) 0 (showNat n) = int n"
proof (induction n rule: showNat.induct)
  case (1 n)
  show ?case
  proof (cases "n < 10")
    case True
    then show ?thesis using digit_nth [of n] by (subst showNat.simps) simp
  next
    case False
    with 1 digit_nth [of "n mod 10"] show ?thesis
      by (subst showNat.simps) (simp add: zmod_int zdiv_int)
  qed
qed

lemma isDigit_plain: "isDigit c \<Longrightarrow> \<not> isWhiteSpace c \<and> c \<noteq> CHR ''+'' \<and> c \<noteq> CHR ''-''"
  by (auto simp: isDigit_def isWhiteSpace_def)

lemma takeWhile_all: "\<forall>c \<in> set xs. P c \<Longrightarrow> takeWhile P xs = xs"
  by (induction xs) auto

lemma parseInt10_showNat: "parseInt10 (showNat n) = Num (int n)"
proof -
  obtain c cs where s: "showNat n = c # cs" using showNat_digits [of n] by (cases "showNat n") auto
  with showNat_digits [of n] have d: "isDigit c" "\<forall>x \<in> set cs. isDigit x" by auto
  from isDigit_plain [OF d(1)] have p: "\<not> isWhiteSpace c" "c \<noteq> CHR ''+''" "c \<noteq> CHR ''-''" by auto
  have t: "takeWhile isDigit cs = cs" using d(2) by (rule takeWhile_all)
  from showNat_value [of n] s have v: "foldl (\<lambda>a c. 10 * a + digitValue c) 0 (c # cs) = int n" by simp
  show ?thesis
    unfolding s using p d v by (simp add: parseInt10_def Let_def takeWhile_all)
qed

lemma parseInt10_showInt: "parseInt10 (showInt i) = Num i"
proof (cases "i < 0")
  case False
  then show ?thesis using parseInt10_showNat [of "nat i"] by (simp add: showInt_def)
next
  case True
  obtain c cs where s: "showNat (nat (- i)) = c # cs"
    using showNat_digits [of "nat (- i)"] by (cases "showNat (nat (- i))") auto
  with showNat_digits [of "nat (- i)"] have d: "isDigit c" "\<forall>x \<in> set cs. isDigit x" by auto
  have t: "takeWhile isDigit cs = cs" using d(2) by (rule takeWhile_all)
  from showNat_value [of "nat (- i)"] s True
  have v: "foldl (\<lambda>a c. 10 * a + digitValue c) 0 (c # cs) = - i" by simp
  have w: "\<not> isWhiteSpace CHR ''-''" by (simp add: isWhiteSpace_def)
  show ?thesis
    using True w d v by (simp add: showInt_def s parseInt10_def Let_def takeWhile_all)
qed

lemmas eval_parseInt = parseInt_def parseInt10_def isWhiteSpace_def isDigit_def digitValue_def
  hasLeadingInteger_def

text \<open>
  Claim C8. \<open>parseRatelimitHeaders\<close> returns nothing when the response has no
  \<open>x-ratelimit-limit\<close> header. Otherwise it returns a snapshot: its limit is the value of
  that header as it stands, a string; \<open>remaining\<close> and \<open>reset\<close> are \<open>Number.parseInt\<close>, in
  base 10, of the other two headers. The parse of a missing header is \<open>NaN\<close>, and the parse
  of a header is \<open>NaN\<close> exactly when the value does not begin with an integer; the parse of
  the decimal text of an integer is that integer. No case is an error, since the function
  returns on every input.
\<close>

theorem parseRatelimitHeaders_snapshot:
  "(\<not> headers_has h RATELIMIT_LIMIT_HEADER \<longrightarrow> parseRatelimitHeaders h = None)
   \<and> (\<forall>l. headers_get h RATELIMIT_LIMIT_HEADER = Some l \<longrightarrow>
          parseRatelimitHeaders h =
            Some \<lparr> limit = l,
                   remaining = parseInt (headers_get h RATELIMIT_REMAINING_HEADER),
                   reset = parseInt (headers_get h RATELIMIT_RESET_HEADER) \<rparr>)
   \<and> parseInt None = NaN
   \<and> (\<forall>s. (parseInt (Some s) = NaN) = (\<not> hasLeadingInteger s))
   \<and> (\<forall>i. parseInt (Some (showInt i)) = Num i)"
proof (intro conjI allI impI)
  show "parseRatelimitHeaders h = None" if "\<not> headers_has h RATELIMIT_LIMIT_HEADER"
    using that by (simp add: parseRatelimitHeaders_def)
  show "parseRatelimitHeaders h =
          Some \<lparr> limit = l,
                 remaining = parseInt (headers_get h RATELIMIT_REMAINING_HEADER),
                 reset = parseInt (headers_get h RATELIMIT_RESET_HEADER) \<rparr>"
    if "headers_get h RATELIMIT_LIMIT_HEADER = Some l" for l
    using that by (simp add: parseRatelimitHeaders_def headers_has_def headers_get_def)
  show "parseInt None = NaN" by (rule parseInt_null)
  show "(parseInt (Some s) = NaN) = (\<not> hasLeadingInteger s)" for s
    by (simp add: parseInt_def parseInt10_NaN_iff)
  show "parseInt (Some (showInt i)) = Num i" for i
    by (simp add: parseInt_def parseInt10_showInt)
qed

theorem parseRatelimitHeaders_snapshot_witness:
  "\<not> headers_has Map.empty RATELIMIT_LIMIT_HEADER
   \<and> parseRatelimitHeaders Map.empty = None
   \<and> parseRatelimitHeaders
       (headers_of_record [(''X-RateLimit-Limit'', Val ''100''), (''X-RateLimit-Remaining'', Val ''42''),
                           (''X-RateLimit-Reset'', Val ''1700000000'')])
     = Some \<lparr> limit = ''100'', remaining = Num 42, reset = Num 1700000000 \<rparr>
   \<and> \<not> hasLeadingInteger ''soon''
   \<and> parseInt (Some ''soon'') = NaN"
proof -
  let ?h = "headers_of_record [(''X-RateLimit-Limit'', Val ''100''), (''X-RateLimit-Remaining'', Val ''42''),
                           (''X-RateLimit-Reset'', Val ''1700000000'')]"
  have a: "\<not> headers_has Map.empty RATELIMIT_LIMIT_HEADER"
    by (simp add: headers_has_def)
  have b: "headers_get ?h RATELIMIT_LIMIT_HEADER = Some ''100''"
    by (simp add: eval_headers eval_names)
  have c: "parseInt (headers_get ?h RATELIMIT_REMAINING_HEADER) = Num 42"
    by (simp add: eval_headers eval_names eval_parseInt)
  have d: "parseInt (headers_get ?h RATELIMIT_RESET_HEADER) = Num 1700000000"
    by (simp add: eval_headers eval_names eval_parseInt)
  have e: "\<not> hasLeadingInteger ''soon''"
    by (simp add: eval_parseInt)
  from parseRatelimitHeaders_snapshot [of Map.empty] a
  have 1: "parseRatelimitHeaders Map.empty = None" by blast
  from parseRatelimitHeaders_snapshot [of ?h] b
  have 2: "parseRatelimitHeaders ?h = Some \<lparr> limit = ''100'',
                   remaining = parseInt (headers_get ?h RATELIMIT_REMAINING_HEADER),
                   reset = parseInt (headers_get ?h RATELIMIT_RESET_HEADER) \<rparr>" by blast
  from parseRatelimitHeaders_snapshot [of Map.empty] e
  have 3: "parseInt (Some ''soon'') = NaN" by blast
  show ?thesis using a 1 2 3 c d e by simp
qed


subsection \<open>The decoded body\<close>

lemma parseBody_skipped:
  "expect request = Some ExpectNone
     \<or> headers_get (res_headers resp) ''content-length'' = Some ''0''
     \<or> res_status resp = 204
   \<Longrightarrow> parseBody env request resp cam = Inr BodyUndefined"
  by (simp add: parseBody_def)

lemma parseBody_decoded:
  "\<not> (expect request = Some ExpectNone
        \<or> headers_get (res_headers resp) ''content-length'' = Some ''0''
        \<or> res_status resp = 204)
   \<Longrightarrow> (parseBody env request resp cam = Inr BodyUndefined)
         = camelizedToUndefined env request resp cam"
  by (auto simp: parseBody_def camelizedToUndefined_def Let_def
           split: option.splits ExpectContentType.splits)

lemma camelizedToUndefined_never:
  "\<forall>f j. cam = Some f \<longrightarrow> f j \<noteq> BodyUndefined \<Longrightarrow> \<not> camelizedToUndefined env request resp cam"
  by (auto simp: camelizedToUndefined_def split: option.splits)

text \<open>
  Claim C7, as stated, at a camelization function that returns \<open>undefined\<close>: the response
  has status 200, no \<open>content-length\<close> header and the body \<open>{}\<close>, the request leaves
  \<open>expect\<close> unset and asks for camelization. The Typed Response is constructed and its body
  is \<open>undefined\<close>, in none of the three cases.
\<close>

theorem body_undefined_counterexample:
  "HTTPResponse_init exampleEnv
     ((exampleRequest ''https://example.com/page'')\<lparr> camelizeResponse := Some True \<rparr>)
     (exampleResponse 200 Map.empty ''{}'') None (Some (\<lambda>j. BodyUndefined))
     = Inr (new_HTTPResponse
              ((exampleRequest ''https://example.com/page'')\<lparr> camelizeResponse := Some True \<rparr>)
              (exampleResponse 200 Map.empty ''{}'') BodyUndefined None)
   \<and> expect ((exampleRequest ''https://example.com/page'')\<lparr> camelizeResponse := Some True \<rparr>)
        \<noteq> Some ExpectNone
   \<and> headers_get (res_headers (exampleResponse 200 Map.empty ''{}'')) ''content-length'' \<noteq> Some ''0''
   \<and> res_status (exampleResponse 200 Map.empty ''{}'') \<noteq> 204"
  by (simp add: HTTPResponse_init_def parseBody_def truthyBool_def eval_example eval_headers
                trim_def isWhiteSpace_def)

text \<open>
  Claim C7, amended. For every request and every response of the transport: when the
  expected kind is \<open>none\<close>, or the \<open>content-length\<close> header is \<open>0\<close>, or the status is 204,
  the Typed Response is constructed and its body is \<open>undefined\<close>; and whenever a Typed
  Response is constructed, its body is \<open>undefined\<close> exactly in these three cases and in a
  fourth: the body was parsed as JSON and the camelization function, applied because the
  request asks for it, returned \<open>undefined\<close>. With no camelization function, or one that
  never returns \<open>undefined\<close>, the body is \<open>undefined\<close> exactly in the three cases.
\<close>

theorem body_undefined_iff:
  "(expect request = Some ExpectNone
      \<or> headers_get (res_headers resp) ''content-length'' = Some ''0''
      \<or> res_status resp = 204 \<longrightarrow>
      HTTPResponse_init env request resp rl cam = Inr (new_HTTPResponse request resp BodyUndefined rl))
   \<and> (\<forall>r. HTTPResponse_init env request resp rl cam = Inr r \<longrightarrow>
          (hr_body r = BodyUndefined)
            = (expect request = Some ExpectNone
               \<or> headers_get (res_headers resp) ''content-length'' = Some ''0''
               \<or> res_status resp = 204
               \<or> camelizedToUndefined env request resp cam))
   \<and> (\<forall>r. HTTPResponse_init env request resp rl cam = Inr r
            \<and> (\<forall>f j. cam = Some f \<longrightarrow> f j \<noteq> BodyUndefined) \<longrightarrow>
          (hr_body r = BodyUndefined)
            = (expect request = Some ExpectNone
               \<or> headers_get (res_headers resp) ''content-length'' = Some ''0''
               \<or> res_status resp = 204))"
proof -
  let ?skipped = "expect request = Some ExpectNone
      \<or> headers_get (res_headers resp) ''content-length'' = Some ''0''
      \<or> res_status resp = 204"
  have 1: "HTTPResponse_init env request resp rl cam = Inr (new_HTTPResponse request resp BodyUndefined rl)"
    if ?skipped
    using parseBody_skipped [OF that] by (simp add: HTTPResponse_init_def)
  have 2: "(hr_body r = BodyUndefined) = (?skipped \<or> camelizedToUndefined env request resp cam)"
    if init: "HTTPResponse_init env request resp rl cam = Inr r" for r
  proof (cases ?skipped)
    case True
    from parseBody_skipped [OF True, of env cam] init have "hr_body r = BodyUndefined"
      by (auto simp: HTTPResponse_init_def new_HTTPResponse_def)
    with True show ?thesis by simp
  next
    case False
    from init obtain b where b: "parseBody env request resp cam = Inr b" and r: "hr_body r = b"
      by (auto simp: HTTPResponse_init_def new_HTTPResponse_def split: sum.splits)
    from parseBody_decoded [OF False, of env cam] b r
    have "(hr_body r = BodyUndefined) = camelizedToUndefined env request resp cam"
      by auto
    with False show ?thesis by simp
  qed
  have 3: "(hr_body r = BodyUndefined) = ?skipped"
    if init: "HTTPResponse_init env request resp rl cam = Inr r"
      and never: "\<forall>f j. cam = Some f \<longrightarrow> f j \<noteq> BodyUndefined" for r
    using 2 [OF init] camelizedToUndefined_never [OF never, of env request resp] by simp
  from 1 2 3 show ?thesis by blast
qed

theorem body_undefined_iff_witness:
  "res_status (exampleResponse 204 Map.empty ''{}'') = 204
   \<and> HTTPResponse_init exampleEnv (exampleRequest ''https://example.com/page'')
        (exampleResponse 204 Map.empty ''{}'') None None
      = Inr (new_HTTPResponse (exampleRequest ''https://example.com/page'')
               (exampleResponse 204 Map.empty ''{}'') BodyUndefined None)
   \<and> HTTPResponse_init exampleEnv (exampleRequest ''https://example.com/page'')
        (exampleResponse 200 Map.empty ''{}'') None None
      = Inr (new_HTTPResponse (exampleRequest ''https://example.com/page'')
               (exampleResponse 200 Map.empty ''{}'') (JsonBody (JObject [])) None)
   \<and> JsonBody (JObject []) \<noteq> BodyUndefined
   \<and> \<not> (expect (exampleRequest ''https://example.com/page'') = Some ExpectNone
          \<or> headers_get (res_headers (exampleResponse 200 Map.empty ''{}'')) ''content-length'' = Some ''0''
          \<or> res_status (exampleResponse 200 Map.empty ''{}'') = 204)
   \<and> HTTPResponse_init exampleEnv
        ((exampleRequest ''https://example.com/page'')\<lparr> camelizeResponse := Some True \<rparr>)
        (exampleResponse 200 Map.empty ''{}'') None (Some (\<lambda>j. BodyUndefined))
      = Inr (new_HTTPResponse
               ((exampleRequest ''https://example.com/page'')\<lparr> camelizeResponse := Some True \<rparr>)
               (exampleResponse 200 Map.empty ''{}'') BodyUndefined None)
   \<and> camelizedToUndefined exampleEnv
        ((exampleRequest ''https://example.com/page'')\<lparr> camelizeResponse := Some True \<rparr>)
        (exampleResponse 200 Map.empty ''{}'') (Some (\<lambda>j. BodyUndefined))"
proof -
  let ?q = "exampleRequest ''https://example.com/page''"
  let ?c = "?q\<lparr> camelizeResponse := Some True \<rparr>"
  let ?r = "exampleResponse 200 Map.empty ''{}''"
  have a: "res_status (exampleResponse 204 Map.empty ''{}'') = 204"
    by (simp add: exampleResponse_def)
  have b: "HTTPResponse_init exampleEnv ?q ?r None None
             = Inr (new_HTTPResponse ?q ?r (JsonBody (JObject [])) None)"
    by (simp add: HTTPResponse_init_def parseBody_def eval_example eval_headers trim_def isWhiteSpace_def)
  have never: "\<forall>f j. (None :: (json \<Rightarrow> Body) option) = Some f \<longrightarrow> f j \<noteq> BodyUndefined"
    by simp
  from body_undefined_iff [of ?q "exampleResponse 204 Map.empty ''{}''" exampleEnv None None] a
  have c: "HTTPResponse_init exampleEnv ?q (exampleResponse 204 Map.empty ''{}'') None None
             = Inr (new_HTTPResponse ?q (exampleResponse 204 Map.empty ''{}'') BodyUndefined None)"
    by blast
  from body_undefined_iff [of ?q ?r exampleEnv None None] b never
  have d: "\<not> (expect ?q = Some ExpectNone
          \<or> headers_get (res_headers ?r) ''content-length'' = Some ''0''
          \<or> res_status ?r = 204)"
    by (simp add: new_HTTPResponse_def)
  have e: "HTTPResponse_init exampleEnv ?c ?r None (Some (\<lambda>j. BodyUndefined))
             = Inr (new_HTTPResponse ?c ?r BodyUndefined None)"
    by (simp add: HTTPResponse_init_def parseBody_def truthyBool_def eval_example eval_headers
                  trim_def isWhiteSpace_def)
  have f: "\<not> (expect ?c = Some ExpectNone
          \<or> headers_get (res_headers ?r) ''content-length'' = Some ''0''
          \<or> res_status ?r = 204)"
    by (simp add: eval_example eval_headers)
  from body_undefined_iff [of ?c ?r exampleEnv None "Some (\<lambda>j. BodyUndefined)"] e f
  have g: "camelizedToUndefined exampleEnv ?c ?r (Some (\<lambda>j. BodyUndefined))"
    by (simp add: new_HTTPResponse_def)
  from a b c d e g show ?thesis by simp
qed

text \<open>
  Claim C9. A request that leaves \<open>expect\<close> unset is decoded exactly as one that expects
  \<open>json\<close>. Unless the \<open>content-length\<close> header is \<open>0\<close> or the status is 204, the body text
  is trimmed and given to \<open>JSON.parse\<close>; the parsed value is the body, or what the
  camelization function makes of it when the request asks for camelization and a function
  is configured; the body is \<open>undefined\<close> exactly when that function returned \<open>undefined\<close>.
\<close>

theorem parseBody_unset_is_json:
  "parseBody env (request\<lparr> expect := None \<rparr>) resp cam
     = parseBody env (request\<lparr> expect := Some ExpectJson \<rparr>) resp cam
   \<and> (headers_get (res_headers resp) ''content-length'' \<noteq> Some ''0'' \<and> res_status resp \<noteq> 204 \<longrightarrow>
        parseBody env (request\<lparr> expect := None \<rparr>) resp cam
          = (case JSON_parse env (trim (res_body resp)) of
               None \<Rightarrow> Inl (SyntaxError (trim (res_body resp)))
             | Some b \<Rightarrow>
                 Inr (case cam of
                        None \<Rightarrow> JsonBody b
                      | Some f \<Rightarrow> if camelizeResponse request = Some True then f b else JsonBody b))
        \<and> (parseBody env (request\<lparr> expect := None \<rparr>) resp cam = Inr BodyUndefined)
            = (\<exists>f b. cam = Some f \<and> camelizeResponse request = Some True
                     \<and> JSON_parse env (trim (res_body resp)) = Some b \<and> f b = BodyUndefined))"
  by (auto simp: parseBody_def Let_def truthyBool_def split: option.splits if_splits)

theorem parseBody_unset_is_json_witness:
  "headers_get (res_headers (exampleResponse 200 Map.empty '' {} '')) ''content-length'' \<noteq> Some ''0''
   \<and> res_status (exampleResponse 200 Map.empty '' {} '') \<noteq> 204
   \<and> parseBody exampleEnv
        ((exampleRequest ''https://example.com/page'')\<lparr> camelizeResponse := Some True, expect := None \<rparr>)
        (exampleResponse 200 Map.empty '' {} '') (Some (\<lambda>j. JsonBody (JArray [j])))
      = Inr (JsonBody (JArray [JObject []]))
   \<and> parseBody exampleEnv
        ((exampleRequest ''https://example.com/page'')\<lparr> camelizeResponse := Some True, expect := None \<rparr>)
        (exampleResponse 200 Map.empty '' {} '') (Some (\<lambda>j. JsonBody (JArray [j])))
      = parseBody exampleEnv
        ((exampleRequest ''https://example.com/page'')\<lparr> camelizeResponse := Some True, expect := Some ExpectJson \<rparr>)
        (exampleResponse 200 Map.empty '' {} '') (Some (\<lambda>j. JsonBody (JArray [j])))"
proof -
  let ?q = "(exampleRequest ''https://example.com/page'')\<lparr> camelizeResponse := Some True \<rparr>"
  let ?r = "exampleResponse 200 Map.empty '' {} ''"
  let ?f = "\<lambda>j. JsonBody (JArray [j])"
  have a: "headers_get (res_headers ?r) ''content-length'' \<noteq> Some ''0'' \<and> res_status ?r \<noteq> 204"
    by (simp add: exampleResponse_def headers_get_def)
  have b: "JSON_parse exampleEnv (trim (res_body ?r)) = Some (JObject [])"
    by (simp add: eval_example trim_def isWhiteSpace_def)
  have c: "camelizeResponse ?q = Some True"
    by simp
  note t = parseBody_unset_is_json [of exampleEnv ?q ?r "Some ?f"]
  from t a have "parseBody exampleEnv (?q\<lparr> expect := None \<rparr>) ?r (Some ?f)
          = (case JSON_parse exampleEnv (trim (res_body ?r)) of
               None \<Rightarrow> Inl (SyntaxError (trim (res_body ?r)))
             | Some b \<Rightarrow>
                 Inr (case Some ?f of
                        None \<Rightarrow> JsonBody b
                      | Some f \<Rightarrow> if camelizeResponse ?q = Some True then f b else JsonBody b))"
    by blast
  with b c have d: "parseBody exampleEnv (?q\<lparr> expect := None \<rparr>) ?r (Some ?f)
          = Inr (JsonBody (JArray [JObject []]))"
    by simp
  from t have e: "parseBody exampleEnv (?q\<lparr> expect := None \<rparr>) ?r (Some ?f)
      = parseBody exampleEnv (?q\<lparr> expect := Some ExpectJson \<rparr>) ?r (Some ?f)"
    by blast
  from a d e show ?thesis by blast
qed

subsection \<open>The CSRF token store\<close>

lemma object_get_own:
  "object_get (obj\<lparr> own := (own obj)(key \<mapsto> v) \<rparr>) key = Found v"
  by (simp add: object_get_def)

lemma object_set_own:
  "key \<noteq> ''__proto__'' \<Longrightarrow> object_set obj key v = obj\<lparr> own := (own obj)(key \<mapsto> v) \<rparr>"
  by (simp add: object_set_def)

text \<open>
  Claim C6, as stated, at the empty token and at the account identifier \<open>__proto__\<close>. In a
  client on the website whose page has no token element, after
  \<open>setCsrfToken("", true, "default")\<close> the call \<open>getCsrfToken(true, "default")\<close> returns
  \<open>undefined\<close>, not the empty string: the empty string is falsy, so the lookup counts as a
  miss and the page is asked. In a new client, \<open>setCsrfToken("tok", true, "__proto__")\<close>
  leaves the account slots as they were, and \<open>getCsrfToken(true, "__proto__")\<close> returns
  \<open>Object.prototype\<close>, not the token: the key is the accessor that every object inherits.
\<close>

theorem csrf_store_counterexample:
  "getCsrfToken exampleEnv (exampleOptions\<lparr> onWebsite := Some True \<rparr>)
     (setCsrfToken exampleEnv initialCsrfTokens (TokenString []) (Some True)
        (Some (AccountString ''default'')))
     (Some True) (Some (AccountString ''default''))
   = Found TokenUndefined
   \<and> getCsrfToken exampleEnv exampleOptions
       (setCsrfToken exampleEnv initialCsrfTokens (TokenString ''tok'') (Some True)
          (Some (AccountString ''__proto__'')))
       (Some True) (Some (AccountString ''__proto__''))
     = Inherited ''__proto__''
   \<and> accounts (setCsrfToken exampleEnv initialCsrfTokens (TokenString ''tok'') (Some True)
                 (Some (AccountString ''__proto__'')))
     = accounts initialCsrfTokens"
  by (simp add: getCsrfToken_def setCsrfToken_def object_get_def object_set_def
                initialCsrfTokens_def accountOrDefault_def truthyBool_def eval_example)

text \<open>
  Claim C6, amended. For every token \<open>t\<close> and every account identifier \<open>a\<close> other than
  \<open>__proto__\<close>: after \<open>setCsrfToken(t, true, a)\<close>, \<open>getCsrfToken(true, a)\<close> returns \<open>t\<close>
  provided \<open>t\<close> is truthy (a non-empty string or a promise), or \<open>a\<close> is not the default
  identifier, or the client is not on the website. For every \<open>a\<close>, \<open>getCsrfToken(false)\<close>
  and \<open>getCsrfToken()\<close> return \<open>t\<close> after every \<open>setCsrfToken(t, authorized, a)\<close>.
  \<open>setCsrfToken\<close> writes the anonymous slot on every call; it leaves the account slots as
  they are unless \<open>authorized\<close> is \<open>true\<close>, and then, for \<open>a\<close> other than \<open>__proto__\<close>, it
  writes the slot of \<open>a\<close> and no other.
\<close>

theorem csrf_store_set_get:
  "(accountKey (accountOrDefault env a) \<noteq> ''__proto__''
      \<and> (truthyToken t \<or> accountOrDefault env a \<noteq> AccountString (DEFAULT_ACCOUNT_TOKEN env)
           \<or> \<not> truthyBool (onWebsite opts)) \<longrightarrow>
      getCsrfToken env opts (setCsrfToken env store t (Some True) a) (Some True) a = Found t)
   \<and> getCsrfToken env opts (setCsrfToken env store t authorized a) (Some False) None = Found t
   \<and> getCsrfToken env opts (setCsrfToken env store t authorized a) None None = Found t
   \<and> ip (setCsrfToken env store t authorized a) = t
   \<and> (authorized \<noteq> Some True \<longrightarrow> accounts (setCsrfToken env store t authorized a) = accounts store)
   \<and> (accountKey (accountOrDefault env a) \<noteq> ''__proto__'' \<longrightarrow>
        accounts (setCsrfToken env store t (Some True) a)
          = (accounts store)\<lparr> own := (own (accounts store))(accountKey (accountOrDefault env a) \<mapsto> t) \<rparr>)"
  by (auto simp: getCsrfToken_def setCsrfToken_def truthyBool_def Let_def
                 object_get_own object_set_own)

theorem csrf_store_set_get_witness:
  "accountKey (accountOrDefault exampleEnv (Some (AccountString ''acct1''))) \<noteq> ''__proto__''
   \<and> truthyToken (TokenString ''tok'')
   \<and> getCsrfToken exampleEnv (exampleOptions\<lparr> onWebsite := Some True \<rparr>)
        (setCsrfToken exampleEnv initialCsrfTokens (TokenString ''tok'') (Some True)
           (Some (AccountString ''acct1'')))
        (Some True) (Some (AccountString ''acct1''))
      = Found (TokenString ''tok'')
   \<and> getCsrfToken exampleEnv (exampleOptions\<lparr> onWebsite := Some True \<rparr>)
        (setCsrfToken exampleEnv initialCsrfTokens (TokenString ''tok'') (Some True)
           (Some (AccountString ''acct1'')))
        (Some False) None
      = Found (TokenString ''tok'')
   \<and> accounts (setCsrfToken exampleEnv initialCsrfTokens (TokenString ''tok'') (Some True)
                 (Some (AccountString ''acct1'')))
      = (accounts initialCsrfTokens)
          \<lparr> own := (own (accounts initialCsrfTokens))(''acct1'' \<mapsto> TokenString ''tok'') \<rparr>
   \<and> accounts (setCsrfToken exampleEnv initialCsrfTokens (TokenString ''tok'') (Some False)
                 (Some (AccountString ''acct1'')))
      = accounts initialCsrfTokens"
proof -
  let ?a = "Some (AccountString ''acct1'')"
  have k: "accountKey (accountOrDefault exampleEnv ?a) = ''acct1''"
    by (simp add: accountOrDefault_def)
  have n: "accountKey (accountOrDefault exampleEnv ?a) \<noteq> ''__proto__''"
    by (simp add: accountOrDefault_def)
  have f: "Some False \<noteq> Some True"
    by simp
  note t = csrf_store_set_get [of exampleEnv ?a "TokenString ''tok''"
             "exampleOptions\<lparr> onWebsite := Some True \<rparr>" initialCsrfTokens]
  from t [of "Some True"] n
  have 1: "getCsrfToken exampleEnv (exampleOptions\<lparr> onWebsite := Some True \<rparr>)
             (setCsrfToken exampleEnv initialCsrfTokens (TokenString ''tok'') (Some True) ?a)
             (Some True) ?a = Found (TokenString ''tok'')"
    by simp
  from t [of "Some True"]
  have 2: "getCsrfToken exampleEnv (exampleOptions\<lparr> onWebsite := Some True \<rparr>)
             (setCsrfToken exampleEnv initialCsrfTokens (TokenString ''tok'') (Some True) ?a)
             (Some False) None = Found (TokenString ''tok'')"
    by blast
  from t [of "Some True"] n k
  have 3: "accounts (setCsrfToken exampleEnv initialCsrfTokens (TokenString ''tok'') (Some True) ?a)
             = (accounts initialCsrfTokens)
                 \<lparr> own := (own (accounts initialCsrfTokens))(''acct1'' \<mapsto> TokenString ''tok'') \<rparr>"
    by simp
  from t [of "Some False"] f
  have 4: "accounts (setCsrfToken exampleEnv initialCsrfTokens (TokenString ''tok'') (Some False) ?a)
             = accounts initialCsrfTokens"
    by blast
  from n 1 2 3 4 show ?thesis by simp
qed

subsection \<open>The URL builder\<close>

text \<open>
  Claim C10. When the URL of the request contains the CDN host, \<open>formatRequestUrl\<close> returns
  at once: the parse of the URL if it parses, else the parse of the URL with its scheme
  removed and the default protocol put in front. The heap is left as it is, and the result
  is the same whatever the search parameters, the account token and the device override
  of the request are, and whatever names the configuration gives to the account-token,
  device-override and tracking parameters: none of them reaches the output.
\<close>

theorem cdn_url_returned_at_once:
  "includes_str (url request) (cdn (domains opts)) \<longrightarrow>
     formatRequestUrl env opts request proto hp
       = (if canParseURL env (url request) then new_URL env (url request) None
          else new_URL env (proto @ ''://'' @ removeProtocol (url request)) None, hp)
     \<and> formatRequestUrl env
          (opts\<lparr> accountTokenSearchParam := p1, overrideDeviceTypeHeaderName := p2,
                 trackingSearchParam := p3 \<rparr>)
          (request\<lparr> search := s, accountToken := a, overrideDeviceType := d \<rparr>) proto hp
        = formatRequestUrl env opts request proto hp"
  by (simp add: formatRequestUrl_def)

theorem cdn_url_returned_at_once_witness:
  "includes_str (url (exampleRequest ''tr.rbxcdn.com/img'')) (cdn (domains exampleOptions))
   \<and> formatRequestUrl exampleEnv
        (exampleOptions\<lparr> accountTokenSearchParam := Some ''acct'', overrideDeviceTypeHeaderName := None,
                          trackingSearchParam := Some ''track'' \<rparr>)
        ((exampleRequest ''tr.rbxcdn.com/img'')\<lparr> search := Some (SearchRecord [(''size'', Val ''420'')]),
             accountToken := Some (AccountNumber 7), overrideDeviceType := None \<rparr>) ''https'' []
      = (Inr (exampleURL ''tr.rbxcdn.com'' ''/img'' []), [])"
  using cdn_url_returned_at_once [where request = "exampleRequest ''tr.rbxcdn.com/img''"
         and opts = exampleOptions and env = exampleEnv and ?p1.0 = "Some ''acct''" and ?p2.0 = None
         and ?p3.0 = "Some ''track''" and s = "Some (SearchRecord [(''size'', Val ''420'')])"
         and a = "Some (AccountNumber 7)" and d = None and proto = "''https''" and hp = "[]"]
  by (simp add: eval_example canParseURL_def new_URL_def removeProtocol_def)

subsection \<open>The orchestrator: one attempt, one answer\<close>

lemma isl_fst_case_sum:
  "(\<And>u. \<not> isl (fst (g u))) \<Longrightarrow> isl (fst (case x of Inl e \<Rightarrow> (Inl e, a) | Inr u \<Rightarrow> g u)) = isl x"
  by (cases x) simp_all

lemma formatRequestUrl_isl:
  "isl (fst (formatRequestUrl env opts (request\<lparr> expect := x, headers := h \<rparr>) proto hp))
     = isl (fst (formatRequestUrl env opts request proto []))"
  by (simp add: formatRequestUrl_def Let_def case_prod_unfold isl_fst_case_sum)

lemma formatBody_isl: "isl (formatBody env hp b) = isl (formatBody env [] b)"
  by (simp add: formatBody_def split: HTTPRequestBodyContent.splits SearchInit.splits sum.splits)

lemma attempt_simps [simp]:
  "ok (status (attempt request hdrs r)) = res_ok r"
  "code (status (attempt request hdrs r)) = res_status r"
  "hr_headers (attempt request hdrs r) = res_headers r"
  "hr_url (attempt request hdrs r) = res_url r"
  "hr_response (attempt request hdrs r) = r"
  by (simp_all add: attempt_def new_HTTPResponse_def)

lemma newChallenge_attempt:
  "newChallenge env opts request (attempt request hdrs r) = newChallenge env opts request (attempt request Map.empty r)"
  by (simp add: newChallenge_def split: option.splits)

text \<open>One attempt that reaches the transport and is answered.\<close>

lemma dispatch_answer:
  assumes "reachesTransport env opts request" and "incoming st = Inr r # rest"
  shows "\<exists>st1 u ct nb. internal_httpRequest env opts
                 (request\<lparr> expect := Some ExpectNone, headers := Some (HeadersObject hdrs) \<rparr>) st
               = (Some (Inr (attempt request hdrs r)), st1)
             \<and> incoming st1 = rest
             \<and> csrfTokens st1 = csrfTokens st
             \<and> sent st1 = sent st @
                 [(chooseFetch opts request, u,
                   \<lparr> ri_method = (case method request of None \<Rightarrow> GET | Some m \<Rightarrow> m),
                     ri_headers = handleRequestHeaders opts
                        (request\<lparr> expect := Some ExpectNone, headers := Some (HeadersObject hdrs) \<rparr>) ct nb,
                     ri_cache = cache request,
                     ri_body = nb,
                     ri_credentials =
                         (if truthyBool (includeCredentials request) then Some ''include''
                          else if includeCredentials request = Some False then Some ''omit''
                          else None) \<rparr>)]"
proof -
  let ?q = "request\<lparr> expect := Some ExpectNone, headers := Some (HeadersObject hdrs) \<rparr>"
  from assms(1) have u: "\<not> isl (fst (formatRequestUrl env opts ?q ''https'' (heap st)))"
    by (simp add: reachesTransport_def formatRequestUrl_isl)
  obtain x hp where xh: "formatRequestUrl env opts ?q ''https'' (heap st) = (x, hp)"
    by (cases "formatRequestUrl env opts ?q ''https'' (heap st)")
  with u obtain u where f: "formatRequestUrl env opts ?q ''https'' (heap st) = (Inr u, hp)"
    by (cases x) auto
  have p: "HTTPResponse_init env ?q r None cam = Inr (attempt request hdrs r)" for cam
    by (simp add: HTTPResponse_init_def parseBody_def attempt_def)
  show ?thesis
  proof (cases "body request")
    case None
    with f assms(2) p show ?thesis
      by (simp add: internal_httpRequest_def chooseFetch_def) (rule exI [of _ None], simp)
  next
    case (Some b)
    with assms(1) have "\<not> isl (formatBody env [] b)" by (simp add: reachesTransport_def)
    then have "\<not> isl (formatBody env hp b)" using formatBody_isl [of env hp b] by simp
    then obtain nb ct where "formatBody env hp b = Inr (nb, ct)"
      by (cases "formatBody env hp b") auto
    with Some f assms(2) p show ?thesis
      by (simp add: internal_httpRequest_def chooseFetch_def) (rule exI [of _ ct], simp)
  qed
qed

text \<open>The loop, one answer at a time.\<close>

lemma loop_csrf:
  assumes "internal_httpRequest env opts (request\<lparr> expect := Some ExpectNone, headers := Some (HeadersObject hdrs) \<rparr>) st
             = (Some (Inr resp), st1)"
    and "isRobloxApiRequest opts request" and "code (status resp) = 403"
    and "headers_get (hr_headers resp) CSRF_TOKEN_HEADER_NAME = Some tok"
  shows "httpRequest_loop env opts request hdrs budget st
           = httpRequest_loop env opts request (headers_set hdrs CSRF_TOKEN_HEADER_NAME tok) budget
               (st1\<lparr> csrfTokens := setCsrfToken env (csrfTokens st1) (TokenString tok)
                                       (includeCredentials request) (accountToken request) \<rparr>)"
  using assms by (subst httpRequest_loop.simps) (simp add: headers_has_def headers_get_def)

lemma loop_challenge:
  assumes "internal_httpRequest env opts (request\<lparr> expect := Some ExpectNone, headers := Some (HeadersObject hdrs) \<rparr>) st
             = (Some (Inr resp), st1)"
    and "\<not> (isRobloxApiRequest opts request \<and> code (status resp) = 403
             \<and> headers_has (hr_headers resp) CSRF_TOKEN_HEADER_NAME)"
    and "newChallenge env opts request resp = Some c"
  shows "httpRequest_loop env opts request hdrs budget st
           = httpRequest_loop env opts request
               (headers_set
                  (headers_set
                     (headers_set hdrs (GENERIC_CHALLENGE_TYPE_HEADER env) (challengeType c))
                     (GENERIC_CHALLENGE_ID_HEADER env) (challengeId c))
                  (GENERIC_CHALLENGE_METADATA_HEADER env) (challengeBase64Metadata c))
               budget st1"
  using assms by (subst httpRequest_loop.simps) (auto simp: Let_def)

lemma loop_raise:
  assumes "internal_httpRequest env opts (request\<lparr> expect := Some ExpectNone, headers := Some (HeadersObject hdrs) \<rparr>) st
             = (Some (Inr resp), st1)"
    and "\<not> (isRobloxApiRequest opts request \<and> code (status resp) = 403
             \<and> headers_has (hr_headers resp) CSRF_TOKEN_HEADER_NAME)"
    and "newChallenge env opts request resp = None"
    and "errorHandling request \<noteq> Some NoErrorHandling" and "\<not> ok (status resp)"
    and "\<not> ((case budget of None \<Rightarrow> False | Some r \<Rightarrow> r > 0) \<and> code (status resp) \<in> set RETRY_ERROR_CODES)"
  shows "httpRequest_loop env opts request hdrs budget st
           = (Some (Inl (ThrownRESTError
                \<lparr> message = errorMessage request resp (parseErrors env request (hr_response resp)),
                  isHttpError = True,
                  errors = Some (parseErrors env request (hr_response resp)),
                  httpCode = Some (code (status resp)),
                  response = Some resp,
                  ratelimit = parseRatelimitHeaders (hr_headers resp) \<rparr>)), st1)"
  using assms by (subst httpRequest_loop.simps) (auto simp: Let_def)

lemma loop_retry:
  assumes "internal_httpRequest env opts (request\<lparr> expect := Some ExpectNone, headers := Some (HeadersObject hdrs) \<rparr>) st
             = (Some (Inr resp), st1)"
    and "\<not> (isRobloxApiRequest opts request \<and> code (status resp) = 403
             \<and> headers_has (hr_headers resp) CSRF_TOKEN_HEADER_NAME)"
    and "newChallenge env opts request resp = None"
    and "errorHandling request \<noteq> Some NoErrorHandling" and "\<not> ok (status resp)"
    and "0 < b" and "code (status resp) \<in> set RETRY_ERROR_CODES"
  shows "httpRequest_loop env opts request hdrs (Some b) st
           = httpRequest_loop env opts request hdrs (Some (b - 1)) st1"
  using assms by (subst httpRequest_loop.simps) (auto simp: Let_def)

lemma loop_return:
  assumes "internal_httpRequest env opts (request\<lparr> expect := Some ExpectNone, headers := Some (HeadersObject hdrs) \<rparr>) st
             = (Some (Inr resp), st1)"
    and "\<not> (isRobloxApiRequest opts request \<and> code (status resp) = 403
             \<and> headers_has (hr_headers resp) CSRF_TOKEN_HEADER_NAME)"
    and "newChallenge env opts request resp = None"
    and "errorHandling request = Some NoErrorHandling \<or> ok (status resp)"
  shows "httpRequest_loop env opts request hdrs budget st
           = (Some (HTTPResponse_init env request (hr_response resp)
                      (parseRatelimitHeaders (hr_headers resp)) (camelizeObject opts)), st1)"
  using assms by (subst httpRequest_loop.simps) (auto simp: Let_def)

lemma retry_codes_not_403: "c \<in> set RETRY_ERROR_CODES \<Longrightarrow> c \<noteq> 403"
  by (auto simp: RETRY_ERROR_CODES_def)

text \<open>A run of transient failures within the budget: each is answered by a new attempt.\<close>

lemma loop_transients:
  assumes "reachesTransport env opts request" and "errorHandling request \<noteq> Some NoErrorHandling"
    and "\<forall>r \<in> set rs. \<not> res_ok r \<and> res_status r \<in> set RETRY_ERROR_CODES
                     \<and> \<not> challengeAnswered env opts request r"
    and "int (length rs) \<le> b" and "incoming st = map Inr rs @ tail"
  shows "\<exists>st1. httpRequest_loop env opts request hdrs (Some b) st
                 = httpRequest_loop env opts request hdrs (Some (b - int (length rs))) st1
               \<and> incoming st1 = tail
               \<and> length (sent st1) = length (sent st) + length rs"
  using assms(3-5)
proof (induction rs arbitrary: st b)
  case Nil
  then show ?case by auto
next
  case (Cons r rs)
  from Cons.prems(3) have inc: "incoming st = Inr r # (map Inr rs @ tail)" by simp
  from dispatch_answer [OF assms(1) inc, of hdrs] obtain st1 where
    d: "internal_httpRequest env opts
          (request\<lparr> expect := Some ExpectNone, headers := Some (HeadersObject hdrs) \<rparr>) st
        = (Some (Inr (attempt request hdrs r)), st1)"
    and i: "incoming st1 = map Inr rs @ tail"
    and s: "length (sent st1) = Suc (length (sent st))"
    by auto
  from Cons.prems(1) have bad: "\<not> res_ok r" "res_status r \<in> set RETRY_ERROR_CODES"
    "\<not> challengeAnswered env opts request r" by auto
  from Cons.prems(2) have pos: "0 < b" by simp
  have step: "httpRequest_loop env opts request hdrs (Some b) st
                = httpRequest_loop env opts request hdrs (Some (b - 1)) st1"
    using bad retry_codes_not_403 [OF bad(2)] newChallenge_attempt [of env opts request hdrs r]
    by (intro loop_retry [OF d _ _ assms(2) _ pos]) (simp_all add: challengeAnswered_def)
  from Cons.prems(1,2) have "\<forall>r \<in> set rs. \<not> res_ok r \<and> res_status r \<in> set RETRY_ERROR_CODES
                     \<and> \<not> challengeAnswered env opts request r" "int (length rs) \<le> b - 1"
    by auto
  from Cons.IH [OF this i] obtain st2 where
    "httpRequest_loop env opts request hdrs (Some (b - 1)) st1
       = httpRequest_loop env opts request hdrs (Some (b - 1 - int (length rs))) st2"
    "incoming st2 = tail" "length (sent st2) = length (sent st1) + length rs"
    by auto
  with step s show ?case
    by (intro exI [of _ st2]) (simp add: algebra_simps)
qed


subsection \<open>The orchestrator: the retry budget\<close>

lemma httpRequest_is_loop:
  "\<exists>hdrs. httpRequest env opts request st = httpRequest_loop env opts request hdrs (retries request) st"
  unfolding httpRequest_def Let_def by (rule exI) (rule refl)

lemma run_exhausts_budget:
  assumes "reachesTransport env opts request" and "errorHandling request \<noteq> Some NoErrorHandling"
    and "\<forall>r \<in> set rs. \<not> res_ok r \<and> res_status r \<in> set RETRY_ERROR_CODES
                     \<and> \<not> challengeAnswered env opts request r"
    and "length rs = Suc n" and "incoming st = map Inr rs @ rest"
  shows "\<exists>e st'. httpRequest_loop env opts request hdrs (Some (int n)) st
                   = (Some (Inl (ThrownRESTError e)), st')
                 \<and> httpCode e = Some (res_status (last rs))
                 \<and> errors e = Some (parseErrors env request (last rs))
                 \<and> incoming st' = rest
                 \<and> length (sent st') = length (sent st) + Suc n"
proof -
  from assms(4) have ne: "rs \<noteq> []" by auto
  let ?rs = "butlast rs" and ?r = "last rs"
  from ne have rs: "rs = ?rs @ [?r]" by simp
  from assms(4) have len: "length ?rs = n" by simp
  from assms(3) have bad: "\<forall>r \<in> set ?rs. \<not> res_ok r \<and> res_status r \<in> set RETRY_ERROR_CODES
                     \<and> \<not> challengeAnswered env opts request r"
    by (auto dest: in_set_butlastD)
  from assms(3) ne have badr: "\<not> res_ok ?r" "res_status ?r \<in> set RETRY_ERROR_CODES"
    "\<not> challengeAnswered env opts request ?r" by auto
  from assms(5) rs have inc: "incoming st = map Inr ?rs @ (Inr ?r # rest)"
    by (metis append_Cons append_Nil append_assoc list.simps(8,9) map_append)
  from loop_transients [OF assms(1,2) bad _ inc, of "int n" hdrs] len obtain st1 where
    a: "httpRequest_loop env opts request hdrs (Some (int n)) st
          = httpRequest_loop env opts request hdrs (Some 0) st1"
    and i1: "incoming st1 = Inr ?r # rest" and s1: "length (sent st1) = length (sent st) + n"
    by auto
  from dispatch_answer [OF assms(1) i1, of hdrs] obtain st2 where
    d: "internal_httpRequest env opts
          (request\<lparr> expect := Some ExpectNone, headers := Some (HeadersObject hdrs) \<rparr>) st1
        = (Some (Inr (attempt request hdrs ?r)), st2)"
    and i2: "incoming st2 = rest" and s2: "length (sent st2) = Suc (length (sent st1))"
    by auto
  have "httpRequest_loop env opts request hdrs (Some 0) st1
          = (Some (Inl (ThrownRESTError
                \<lparr> message = errorMessage request (attempt request hdrs ?r)
                              (parseErrors env request (hr_response (attempt request hdrs ?r))),
                  isHttpError = True,
                  errors = Some (parseErrors env request (hr_response (attempt request hdrs ?r))),
                  httpCode = Some (code (status (attempt request hdrs ?r))),
                  response = Some (attempt request hdrs ?r),
                  ratelimit = parseRatelimitHeaders (hr_headers (attempt request hdrs ?r)) \<rparr>)), st2)"
    using badr retry_codes_not_403 [OF badr(2)] newChallenge_attempt [of env opts request hdrs ?r]
    by (intro loop_raise [OF d _ _ assms(2)]) (simp_all add: challengeAnswered_def)
  with a i2 s1 s2 show ?thesis by simp
qed

lemma run_recovers:
  assumes "reachesTransport env opts request" and "errorHandling request \<noteq> Some NoErrorHandling"
    and "\<forall>r \<in> set rs. \<not> res_ok r \<and> res_status r \<in> set RETRY_ERROR_CODES
                     \<and> \<not> challengeAnswered env opts request r"
    and "length rs \<le> n" and "res_ok good" and "\<not> csrfRotates opts request good"
    and "incoming st = map Inr rs @ Inr good # rest"
  shows "\<exists>st'. httpRequest_loop env opts request hdrs (Some (int n)) st
                 = (Some (HTTPResponse_init env request good
                            (parseRatelimitHeaders (res_headers good)) (camelizeObject opts)), st')
               \<and> incoming st' = rest
               \<and> length (sent st') = length (sent st) + Suc (length rs)"
proof -
  from assms(4) have "int (length rs) \<le> int n" by simp
  from loop_transients [OF assms(1,2,3) this assms(7), of hdrs] obtain st1 where
    a: "httpRequest_loop env opts request hdrs (Some (int n)) st
          = httpRequest_loop env opts request hdrs (Some (int n - int (length rs))) st1"
    and i1: "incoming st1 = Inr good # rest" and s1: "length (sent st1) = length (sent st) + length rs"
    by auto
  from dispatch_answer [OF assms(1) i1, of hdrs] obtain st2 where
    d: "internal_httpRequest env opts
          (request\<lparr> expect := Some ExpectNone, headers := Some (HeadersObject hdrs) \<rparr>) st1
        = (Some (Inr (attempt request hdrs good)), st2)"
    and i2: "incoming st2 = rest" and s2: "length (sent st2) = Suc (length (sent st1))"
    by auto
  have "httpRequest_loop env opts request hdrs (Some (int n - int (length rs))) st1
          = (Some (HTTPResponse_init env request (hr_response (attempt request hdrs good))
                      (parseRatelimitHeaders (hr_headers (attempt request hdrs good)))
                      (camelizeObject opts)), st2)"
    using assms(5,6)
    by (intro loop_return [OF d]) (simp_all add: csrfRotates_def newChallenge_def)
  with a i2 s1 s2 show ?thesis by simp
qed

text \<open>
  Claim C1, amended. Let the error-handling mode of a request not be \<open>none\<close>, let its retry
  budget be \<open>n\<close>, let it reach the transport, and let every answer in question be a
  transient failure: not ok, with a status among 500, 502, 503 and 504, and with no
  challenge retry (the token rotation needs status 403). If the transport makes \<open>n + 1\<close>
  such answers, \<open>httpRequest\<close> dispatches \<open>n + 1\<close> times, that is, it redispatches exactly
  \<open>n\<close> times, and on the last answer it throws a \<open>RESTError\<close> that carries the status and
  the structured errors of that answer. If after at most \<open>n\<close> such answers the transport
  makes an ok answer to which the token rotation does not apply, \<open>httpRequest\<close> dispatches
  no more and ends with \<open>HTTPResponse.init\<close> of that answer: it returns the Typed Response
  whenever the body decodes by the expected kind, and no \<open>RESTError\<close> is thrown.
\<close>

theorem retry_budget:
  assumes "reachesTransport env opts request" and "errorHandling request \<noteq> Some NoErrorHandling"
    and "retries request = Some (int n)"
    and "\<forall>r \<in> set rs. \<not> res_ok r \<and> res_status r \<in> set RETRY_ERROR_CODES
                     \<and> \<not> challengeAnswered env opts request r"
  shows "(length rs = Suc n \<and> incoming st = map Inr rs @ rest \<longrightarrow>
            (\<exists>e st'. httpRequest env opts request st = (Some (Inl (ThrownRESTError e)), st')
                    \<and> httpCode e = Some (res_status (last rs))
                    \<and> errors e = Some (parseErrors env request (last rs))
                    \<and> incoming st' = rest
                    \<and> length (sent st') = length (sent st) + Suc n))
       \<and> (length rs \<le> n \<and> res_ok good \<and> \<not> csrfRotates opts request good
            \<and> incoming st = map Inr rs @ Inr good # rest \<longrightarrow>
            (\<exists>st'. httpRequest env opts request st
                    = (Some (HTTPResponse_init env request good
                               (parseRatelimitHeaders (res_headers good)) (camelizeObject opts)), st')
                  \<and> incoming st' = rest
                  \<and> length (sent st') = length (sent st) + Suc (length rs))
            \<and> (\<forall>b. parseBody env request good (camelizeObject opts) = Inr b \<longrightarrow>
                  fst (httpRequest env opts request st)
                    = Some (Inr (new_HTTPResponse request good b (parseRatelimitHeaders (res_headers good))))))"
proof -
  from httpRequest_is_loop [of env opts request st] assms(3) obtain hdrs where
    h: "httpRequest env opts request st = httpRequest_loop env opts request hdrs (Some (int n)) st"
    by auto
  show ?thesis
  proof (intro conjI impI; (elim conjE)?)
    assume "length rs = Suc n" "incoming st = map Inr rs @ rest"
    from run_exhausts_budget [OF assms(1,2,4) this, of hdrs] h
    show "\<exists>e st'. httpRequest env opts request st = (Some (Inl (ThrownRESTError e)), st')
                    \<and> httpCode e = Some (res_status (last rs))
                    \<and> errors e = Some (parseErrors env request (last rs))
                    \<and> incoming st' = rest
                    \<and> length (sent st') = length (sent st) + Suc n"
      by simp
  next
    assume a: "length rs \<le> n" "res_ok good" "\<not> csrfRotates opts request good"
      "incoming st = map Inr rs @ Inr good # rest"
    from run_recovers [OF assms(1,2,4) a, of hdrs] h
    show "\<exists>st'. httpRequest env opts request st
                    = (Some (HTTPResponse_init env request good
                               (parseRatelimitHeaders (res_headers good)) (camelizeObject opts)), st')
                  \<and> incoming st' = rest
                  \<and> length (sent st') = length (sent st) + Suc (length rs)"
      by simp
    then show "\<forall>b. parseBody env request good (camelizeObject opts) = Inr b \<longrightarrow>
                  fst (httpRequest env opts request st)
                    = Some (Inr (new_HTTPResponse request good b (parseRatelimitHeaders (res_headers good))))"
      by (auto simp: HTTPResponse_init_def)
  qed
qed

lemma example_reaches:
  "reachesTransport exampleEnv exampleOptions ((exampleRequest ''https://apis.roblox.com/v1/thing'')\<lparr> retries := x \<rparr>)"
  by (simp add: reachesTransport_def eval_dispatch eval_example)

lemma example_unchallenged:
  "\<not> challengeAnswered exampleEnv exampleOptions ((exampleRequest u)\<lparr> retries := x \<rparr>) r"
  by (simp add: challengeAnswered_def newChallenge_def exampleRequest_def)

theorem retry_budget_witness:
  "reachesTransport exampleEnv exampleOptions
      ((exampleRequest ''https://apis.roblox.com/v1/thing'')\<lparr> retries := Some 2 \<rparr>)
   \<and> errorHandling ((exampleRequest ''https://apis.roblox.com/v1/thing'')\<lparr> retries := Some 2 \<rparr>)
        \<noteq> Some NoErrorHandling
   \<and> retries ((exampleRequest ''https://apis.roblox.com/v1/thing'')\<lparr> retries := Some 2 \<rparr>) = Some (int 2)
   \<and> \<not> res_ok (exampleResponse 503 Map.empty [])
   \<and> res_status (exampleResponse 503 Map.empty []) \<in> set RETRY_ERROR_CODES
   \<and> \<not> challengeAnswered exampleEnv exampleOptions
          ((exampleRequest ''https://apis.roblox.com/v1/thing'')\<lparr> retries := Some 2 \<rparr>)
          (exampleResponse 503 Map.empty [])
   \<and> \<not> res_ok (exampleResponse 502 Map.empty [])
   \<and> res_status (exampleResponse 502 Map.empty []) \<in> set RETRY_ERROR_CODES
   \<and> \<not> challengeAnswered exampleEnv exampleOptions
          ((exampleRequest ''https://apis.roblox.com/v1/thing'')\<lparr> retries := Some 2 \<rparr>)
          (exampleResponse 502 Map.empty [])
   \<and> (\<exists>e st'. httpRequest exampleEnv exampleOptions
              ((exampleRequest ''https://apis.roblox.com/v1/thing'')\<lparr> retries := Some 2 \<rparr>)
              (exampleState [Inr (exampleResponse 503 Map.empty []), Inr (exampleResponse 502 Map.empty []),
                             Inr (exampleResponse 503 Map.empty [])])
            = (Some (Inl (ThrownRESTError e)), st')
          \<and> httpCode e = Some 503 \<and> incoming st' = [] \<and> length (sent st') = 3)
   \<and> res_ok (exampleResponse 200 Map.empty ''{}'')
   \<and> \<not> csrfRotates exampleOptions
          ((exampleRequest ''https://apis.roblox.com/v1/thing'')\<lparr> retries := Some 2 \<rparr>)
          (exampleResponse 200 Map.empty ''{}'')
   \<and> parseBody exampleEnv ((exampleRequest ''https://apis.roblox.com/v1/thing'')\<lparr> retries := Some 2 \<rparr>)
        (exampleResponse 200 Map.empty ''{}'') (camelizeObject exampleOptions)
      = Inr (JsonBody (JObject []))
   \<and> (\<exists>st'. httpRequest exampleEnv exampleOptions
              ((exampleRequest ''https://apis.roblox.com/v1/thing'')\<lparr> retries := Some 2 \<rparr>)
              (exampleState [Inr (exampleResponse 503 Map.empty []), Inr (exampleResponse 200 Map.empty ''{}'')])
            = (Some (Inr (new_HTTPResponse
                  ((exampleRequest ''https://apis.roblox.com/v1/thing'')\<lparr> retries := Some 2 \<rparr>)
                  (exampleResponse 200 Map.empty ''{}'') (JsonBody (JObject [])) None)), st')
          \<and> incoming st' = [] \<and> length (sent st') = 2)"
proof -
  let ?q = "(exampleRequest ''https://apis.roblox.com/v1/thing'')\<lparr> retries := Some 2 \<rparr>"
  let ?bad = "exampleResponse 503 Map.empty []"
  let ?bad2 = "exampleResponse 502 Map.empty []"
  let ?good = "exampleResponse 200 Map.empty ''{}''"
  have r: "reachesTransport exampleEnv exampleOptions ?q"
    by (rule example_reaches)
  have e: "errorHandling ?q \<noteq> Some NoErrorHandling" and n: "retries ?q = Some (int 2)"
    by (simp_all add: exampleRequest_def)
  have bad3: "\<forall>r \<in> set [?bad, ?bad2, ?bad]. \<not> res_ok r \<and> res_status r \<in> set RETRY_ERROR_CODES
                \<and> \<not> challengeAnswered exampleEnv exampleOptions ?q r"
    by (simp add: example_unchallenged exampleResponse_def RETRY_ERROR_CODES_def)
  have bad1: "\<forall>r \<in> set [?bad]. \<not> res_ok r \<and> res_status r \<in> set RETRY_ERROR_CODES
                \<and> \<not> challengeAnswered exampleEnv exampleOptions ?q r"
    by (simp add: example_unchallenged exampleResponse_def RETRY_ERROR_CODES_def)
  have g: "res_ok ?good" "\<not> csrfRotates exampleOptions ?q ?good"
    by (simp_all add: csrfRotates_def exampleResponse_def)
  have rl: "parseRatelimitHeaders (res_headers ?good) = None"
    by (simp add: parseRatelimitHeaders_def headers_has_def exampleResponse_def)
  have pb: "parseBody exampleEnv ?q ?good (camelizeObject exampleOptions) = Inr (JsonBody (JObject []))"
    by (simp add: parseBody_def eval_example eval_headers trim_def isWhiteSpace_def)
  have l3: "length [?bad, ?bad2, ?bad] = Suc 2" and l1: "length [?bad] \<le> 2"
    by simp_all
  have i3: "incoming (exampleState [Inr ?bad, Inr ?bad2, Inr ?bad]) = map Inr [?bad, ?bad2, ?bad] @ []"
    and i1: "incoming (exampleState [Inr ?bad, Inr ?good]) = map Inr [?bad] @ Inr ?good # []"
    by (simp_all add: exampleState_def)
  have s0: "length (sent (exampleState xs)) = 0" for xs
    by (simp add: exampleState_def)
  have la: "res_status (last [?bad, ?bad2, ?bad]) = 503"
    by (simp add: exampleResponse_def)
  from retry_budget [OF r e n bad3, where st = "exampleState [Inr ?bad, Inr ?bad2, Inr ?bad]" and rest = "[]"]
       l3 i3
  have "\<exists>e st'. httpRequest exampleEnv exampleOptions ?q (exampleState [Inr ?bad, Inr ?bad2, Inr ?bad])
            = (Some (Inl (ThrownRESTError e)), st')
          \<and> httpCode e = Some (res_status (last [?bad, ?bad2, ?bad]))
          \<and> errors e = Some (parseErrors exampleEnv ?q (last [?bad, ?bad2, ?bad]))
          \<and> incoming st' = []
          \<and> length (sent st') = length (sent (exampleState [Inr ?bad, Inr ?bad2, Inr ?bad])) + Suc 2"
    by blast
  then have 1: "\<exists>e st'. httpRequest exampleEnv exampleOptions ?q (exampleState [Inr ?bad, Inr ?bad2, Inr ?bad])
            = (Some (Inl (ThrownRESTError e)), st')
          \<and> httpCode e = Some 503 \<and> incoming st' = [] \<and> length (sent st') = 3"
    unfolding la s0 by auto
  note t = retry_budget [OF r e n bad1, where st = "exampleState [Inr ?bad, Inr ?good]" and good = ?good
         and rest = "[]"]
  from t l1 g i1
  have a: "\<exists>st'. httpRequest exampleEnv exampleOptions ?q (exampleState [Inr ?bad, Inr ?good])
            = (Some (HTTPResponse_init exampleEnv ?q ?good
                               (parseRatelimitHeaders (res_headers ?good)) (camelizeObject exampleOptions)), st')
          \<and> incoming st' = []
          \<and> length (sent st') = length (sent (exampleState [Inr ?bad, Inr ?good])) + Suc (length [?bad])"
    by blast
  from t l1 g i1 pb
  have b: "fst (httpRequest exampleEnv exampleOptions ?q (exampleState [Inr ?bad, Inr ?good]))
             = Some (Inr (new_HTTPResponse ?q ?good (JsonBody (JObject []))
                            (parseRatelimitHeaders (res_headers ?good))))"
    by blast
  from a b have 2: "\<exists>st'. httpRequest exampleEnv exampleOptions ?q (exampleState [Inr ?bad, Inr ?good])
            = (Some (Inr (new_HTTPResponse ?q ?good (JsonBody (JObject [])) None)), st')
          \<and> incoming st' = [] \<and> length (sent st') = 2"
    unfolding rl s0 by (auto simp: prod_eq_iff)
  from bad3 have b: "\<not> res_ok ?bad" "res_status ?bad \<in> set RETRY_ERROR_CODES"
    "\<not> challengeAnswered exampleEnv exampleOptions ?q ?bad"
    "\<not> res_ok ?bad2" "res_status ?bad2 \<in> set RETRY_ERROR_CODES"
    "\<not> challengeAnswered exampleEnv exampleOptions ?q ?bad2"
    by simp_all
  from r e n b 1 g pb 2 show ?thesis by blast
qed

text \<open>
  Claim C1, as stated, at a body that does not decode: with a budget of 2, a 503 followed
  by a 200 whose body is the text \<open>oops\<close>, and the expected kind left unset, \<open>httpRequest\<close>
  does not return the response: \<open>JSON.parse\<close> throws a \<open>SyntaxError\<close>.
\<close>

theorem retry_budget_counterexample:
  "fst (httpRequest exampleEnv exampleOptions
          ((exampleRequest ''https://apis.roblox.com/v1/thing'')\<lparr> retries := Some 2 \<rparr>)
          (exampleState [Inr (exampleResponse 503 Map.empty []), Inr (exampleResponse 200 Map.empty ''oops'')]))
   = Some (Inl (SyntaxError ''oops''))"
proof -
  let ?q = "(exampleRequest ''https://apis.roblox.com/v1/thing'')\<lparr> retries := Some 2 \<rparr>"
  let ?bad = "exampleResponse 503 Map.empty []"
  let ?good = "exampleResponse 200 Map.empty ''oops''"
  let ?st = "exampleState [Inr ?bad, Inr ?good]"
  have r: "reachesTransport exampleEnv exampleOptions ?q"
    by (rule example_reaches)
  have e: "errorHandling ?q \<noteq> Some NoErrorHandling"
    by (simp add: exampleRequest_def)
  have bad1: "\<forall>r \<in> set [?bad]. \<not> res_ok r \<and> res_status r \<in> set RETRY_ERROR_CODES
                \<and> \<not> challengeAnswered exampleEnv exampleOptions ?q r"
    by (simp add: example_unchallenged exampleResponse_def RETRY_ERROR_CODES_def)
  have g: "res_ok ?good" "\<not> csrfRotates exampleOptions ?q ?good"
    by (simp_all add: csrfRotates_def exampleResponse_def)
  have i: "incoming ?st = map Inr [?bad] @ Inr ?good # []"
    by (simp add: exampleState_def)
  have pb: "HTTPResponse_init exampleEnv ?q ?good rl (camelizeObject exampleOptions)
              = Inl (SyntaxError ''oops'')" for rl
    by (simp add: HTTPResponse_init_def parseBody_def eval_example eval_headers trim_def isWhiteSpace_def)
  from httpRequest_is_loop [of exampleEnv exampleOptions ?q ?st] obtain hdrs where
    h: "httpRequest exampleEnv exampleOptions ?q ?st
          = httpRequest_loop exampleEnv exampleOptions ?q hdrs (Some (int 2)) ?st"
    by (auto simp: exampleRequest_def)
  from run_recovers [OF r e bad1 _ g i, of 2 hdrs] h pb show ?thesis
    by auto
qed

subsection \<open>The orchestrator: error handling switched off\<close>

text \<open>What is thrown outside the error branch of the loop is never a \<open>RESTError\<close>.\<close>

lemma new_URL_no_RESTError: "new_URL env s b = Inl e \<Longrightarrow> \<not> isRESTError e"
  by (auto simp: new_URL_def split: option.splits)

lemma formatRequestUrl_no_RESTError:
  "formatRequestUrl env opts request proto hp = (Inl e, hp') \<Longrightarrow> \<not> isRESTError e"
  by (auto simp: formatRequestUrl_def Let_def case_prod_unfold
           split: if_splits sum.splits dest: new_URL_no_RESTError)

lemma formdata_of_no_RESTError: "formdata_of fd ob = Inl e \<Longrightarrow> \<not> isRESTError e"
  by (induction fd ob rule: formdata_of.induct) (auto split: FormDataValue.splits if_splits)

lemma formatBody_no_RESTError: "formatBody env hp b = Inl e \<Longrightarrow> \<not> isRESTError e"
  by (auto simp: formatBody_def split: HTTPRequestBodyContent.splits SearchInit.splits sum.splits
           dest: formdata_of_no_RESTError)

lemma parseBody_no_RESTError: "parseBody env request resp cam = Inl e \<Longrightarrow> \<not> isRESTError e"
  by (auto simp: parseBody_def Let_def split: option.splits ExpectContentType.splits if_splits)

lemma HTTPResponse_init_no_RESTError:
  "HTTPResponse_init env request resp rl cam = Inl e \<Longrightarrow> \<not> isRESTError e"
  by (auto simp: HTTPResponse_init_def split: sum.splits dest: parseBody_no_RESTError)

lemma internal_httpRequest_no_RESTError:
  "internal_httpRequest env opts request st = (Some (Inl e), st1) \<Longrightarrow> \<not> isRESTError e"
  by (auto simp: internal_httpRequest_def Let_def
           split: prod.splits sum.splits option.splits list.splits
           dest: formatRequestUrl_no_RESTError formatBody_no_RESTError HTTPResponse_init_no_RESTError)

lemma loop_no_RESTError:
  "errorHandling request = Some NoErrorHandling \<Longrightarrow>
   httpRequest_loop env opts request hdrs budget st = (Some (Inl e), st') \<Longrightarrow> \<not> isRESTError e"
proof (induction env opts request hdrs budget st rule: httpRequest_loop.induct)
  case (1 env opts request hdrs budget st)
  from "1.prems"(2) show ?case
    apply (subst (asm) httpRequest_loop.simps)
    apply (simp split: prod.splits option.splits sum.splits if_splits add: Let_def)
    using "1.IH" "1.prems"(1)
    apply (auto dest: internal_httpRequest_no_RESTError HTTPResponse_init_no_RESTError)
    done
qed

lemma run_returns:
  assumes "reachesTransport env opts request" and "incoming st = Inr r # rest"
    and "\<not> csrfRotates opts request r" and "\<not> challengeAnswered env opts request r"
    and "errorHandling request = Some NoErrorHandling \<or> res_ok r"
  shows "\<exists>st1. httpRequest_loop env opts request hdrs budget st
                 = (Some (HTTPResponse_init env request r
                            (parseRatelimitHeaders (res_headers r)) (camelizeObject opts)), st1)
               \<and> incoming st1 = rest
               \<and> length (sent st1) = Suc (length (sent st))"
proof -
  from dispatch_answer [OF assms(1,2), of hdrs] obtain st1 where
    d: "internal_httpRequest env opts
          (request\<lparr> expect := Some ExpectNone, headers := Some (HeadersObject hdrs) \<rparr>) st
        = (Some (Inr (attempt request hdrs r)), st1)"
    and i: "incoming st1 = rest" and s: "length (sent st1) = Suc (length (sent st))"
    by auto
  have "httpRequest_loop env opts request hdrs budget st
          = (Some (HTTPResponse_init env request (hr_response (attempt request hdrs r))
                      (parseRatelimitHeaders (hr_headers (attempt request hdrs r)))
                      (camelizeObject opts)), st1)"
    using assms(3-5) newChallenge_attempt [of env opts request hdrs r]
    by (intro loop_return [OF d]) (simp_all add: csrfRotates_def challengeAnswered_def)
  with i s show ?thesis by simp
qed

lemma not_main_host:
  "\<not> isRobloxApiRequest opts request
     \<Longrightarrow> \<not> csrfRotates opts request r \<and> \<not> challengeAnswered env opts request r"
  by (simp add: csrfRotates_def challengeAnswered_def newChallenge_def)

text \<open>
  A run of answers each of which is met by a token rotation or by a challenge retry: the
  loop goes on with the same request and the same budget.
\<close>

lemma run_free_retries:
  assumes "reachesTransport env opts request"
    and "\<forall>p \<in> set pre. csrfRotates opts request p \<or> challengeAnswered env opts request p"
    and "incoming st = map Inr pre @ tail"
  shows "\<exists>hdrs1 st1. httpRequest_loop env opts request hdrs budget st
                       = httpRequest_loop env opts request hdrs1 budget st1
                     \<and> incoming st1 = tail
                     \<and> length (sent st1) = length (sent st) + length pre"
  using assms(2,3)
proof (induction pre arbitrary: hdrs st)
  case Nil
  then show ?case by auto
next
  case (Cons p ps)
  from Cons.prems(2) have i: "incoming st = Inr p # (map Inr ps @ tail)" by simp
  from dispatch_answer [OF assms(1) i, of hdrs] obtain st1 where
    d: "internal_httpRequest env opts
          (request\<lparr> expect := Some ExpectNone, headers := Some (HeadersObject hdrs) \<rparr>) st
        = (Some (Inr (attempt request hdrs p)), st1)"
    and i1: "incoming st1 = map Inr ps @ tail" and s1: "length (sent st1) = Suc (length (sent st))"
    by auto
  from Cons.prems(1) have ps: "\<forall>p \<in> set ps. csrfRotates opts request p \<or> challengeAnswered env opts request p"
    by simp
  have "\<exists>hdrs2 st2. httpRequest_loop env opts request hdrs budget st
                       = httpRequest_loop env opts request hdrs2 budget st2
                     \<and> incoming st2 = map Inr ps @ tail
                     \<and> length (sent st2) = Suc (length (sent st))"
  proof (cases "csrfRotates opts request p")
    case True
    then obtain tok where m: "isRobloxApiRequest opts request" and c: "res_status p = 403"
      and t: "headers_get (res_headers p) CSRF_TOKEN_HEADER_NAME = Some tok"
      by (auto simp: csrfRotates_def headers_has_def headers_get_def)
    let ?st = "st1\<lparr> csrfTokens := setCsrfToken env (csrfTokens st1) (TokenString tok)
                                       (includeCredentials request) (accountToken request) \<rparr>"
    from loop_csrf [OF d m, of tok budget] c t
    have "httpRequest_loop env opts request hdrs budget st
            = httpRequest_loop env opts request (headers_set hdrs CSRF_TOKEN_HEADER_NAME tok) budget ?st"
      by simp
    with i1 s1 show ?thesis
      by (intro exI [of _ "headers_set hdrs CSRF_TOKEN_HEADER_NAME tok"] exI [of _ ?st]) simp
  next
    case False
    with Cons.prems(1) have "challengeAnswered env opts request p" by simp
    then obtain c where c: "newChallenge env opts request (attempt request hdrs p) = Some c"
      using newChallenge_attempt [of env opts request hdrs p] by (auto simp: challengeAnswered_def)
    from False have n: "\<not> (isRobloxApiRequest opts request \<and> code (status (attempt request hdrs p)) = 403
             \<and> headers_has (hr_headers (attempt request hdrs p)) CSRF_TOKEN_HEADER_NAME)"
      by (simp add: csrfRotates_def)
    from loop_challenge [OF d n c, of budget] i1 s1 show ?thesis by blast
  qed
  then obtain hdrs2 st2 where
    a: "httpRequest_loop env opts request hdrs budget st = httpRequest_loop env opts request hdrs2 budget st2"
    and i2: "incoming st2 = map Inr ps @ tail" and s2: "length (sent st2) = Suc (length (sent st))"
    by blast
  from Cons.IH [OF ps i2, of hdrs2] a s2 show ?case by auto
qed

text \<open>
  Claim C4, amended. When the error-handling mode is \<open>none\<close>, \<open>httpRequest\<close> never throws
  a \<open>RESTError\<close>, whatever the transport answers. Let the request reach the transport, let
  the transport give any number of answers each met by a token rotation or by a challenge
  retry, and then an answer to which neither applies (as is every answer to a request to
  a host that is not the main API host). Then \<open>httpRequest\<close> makes one attempt for each of
  these answers and ends with \<open>HTTPResponse.init\<close> of the last, for the request as the
  caller gave it: whenever the body decodes by the expected kind of the request, the
  result is a Typed Response with that body, the \<open>ok\<close> flag and the status of the answer,
  so with \<open>status.ok\<close> false for a 404. Only the decoding can still throw.
\<close>

theorem no_error_handling:
  "errorHandling request = Some NoErrorHandling \<longrightarrow>
     (\<forall>e. fst (httpRequest env opts request st) \<noteq> Some (Inl (ThrownRESTError e)))
     \<and> (reachesTransport env opts request
          \<and> (\<forall>p \<in> set pre. csrfRotates opts request p \<or> challengeAnswered env opts request p)
          \<and> incoming st = map Inr pre @ Inr r # rest
          \<and> (\<not> isRobloxApiRequest opts request
               \<or> (\<not> csrfRotates opts request r \<and> \<not> challengeAnswered env opts request r)) \<longrightarrow>
          (\<exists>st1. httpRequest env opts request st
                   = (Some (HTTPResponse_init env request r (parseRatelimitHeaders (res_headers r))
                              (camelizeObject opts)), st1)
                 \<and> incoming st1 = rest
                 \<and> length (sent st1) = length (sent st) + Suc (length pre))
          \<and> (\<forall>b. parseBody env request r (camelizeObject opts) = Inr b \<longrightarrow>
                (\<exists>resp. fst (httpRequest env opts request st) = Some (Inr resp)
                        \<and> ok (status resp) = res_ok r \<and> code (status resp) = res_status r
                        \<and> hr_body resp = b \<and> hr_request resp = request)))"
proof (intro impI conjI allI)
  assume eh: "errorHandling request = Some NoErrorHandling"
  from httpRequest_is_loop [of env opts request st] obtain hdrs where
    h: "httpRequest env opts request st = httpRequest_loop env opts request hdrs (retries request) st"
    by auto
  show "fst (httpRequest env opts request st) \<noteq> Some (Inl (ThrownRESTError e))" for e
  proof
    assume "fst (httpRequest env opts request st) = Some (Inl (ThrownRESTError e))"
    with h obtain st' where
      "httpRequest_loop env opts request hdrs (retries request) st = (Some (Inl (ThrownRESTError e)), st')"
      by (cases "httpRequest_loop env opts request hdrs (retries request) st") auto
    from loop_no_RESTError [OF eh this] show False by simp
  qed
  assume a: "reachesTransport env opts request
          \<and> (\<forall>p \<in> set pre. csrfRotates opts request p \<or> challengeAnswered env opts request p)
          \<and> incoming st = map Inr pre @ Inr r # rest
          \<and> (\<not> isRobloxApiRequest opts request
               \<or> (\<not> csrfRotates opts request r \<and> \<not> challengeAnswered env opts request r))"
  then have re: "reachesTransport env opts request"
    and pre: "\<forall>p \<in> set pre. csrfRotates opts request p \<or> challengeAnswered env opts request p"
    and i: "incoming st = map Inr pre @ (Inr r # rest)"
    by simp_all
  from a have n: "\<not> csrfRotates opts request r" "\<not> challengeAnswered env opts request r"
    using not_main_host [of opts request r env] by auto
  from run_free_retries [OF re pre i, of hdrs "retries request"] obtain hdrs1 st1 where
    l1: "httpRequest_loop env opts request hdrs (retries request) st
           = httpRequest_loop env opts request hdrs1 (retries request) st1"
    and i1: "incoming st1 = Inr r # rest"
    and s1: "length (sent st1) = length (sent st) + length pre"
    by blast
  from run_returns [OF re i1 n, of hdrs1 "retries request"] eh obtain st2 where
    l2: "httpRequest_loop env opts request hdrs1 (retries request) st1
           = (Some (HTTPResponse_init env request r
                      (parseRatelimitHeaders (res_headers r)) (camelizeObject opts)), st2)"
    and i2: "incoming st2 = rest" and s2: "length (sent st2) = Suc (length (sent st1))"
    by blast
  from h l1 l2 i2 s1 s2
  show f: "\<exists>st1. httpRequest env opts request st
                   = (Some (HTTPResponse_init env request r (parseRatelimitHeaders (res_headers r))
                              (camelizeObject opts)), st1)
                 \<and> incoming st1 = rest
                 \<and> length (sent st1) = length (sent st) + Suc (length pre)"
    by simp
  show "\<exists>resp. fst (httpRequest env opts request st) = Some (Inr resp)
                        \<and> ok (status resp) = res_ok r \<and> code (status resp) = res_status r
                        \<and> hr_body resp = b \<and> hr_request resp = request"
    if "parseBody env request r (camelizeObject opts) = Inr b" for b
    using that f by (auto simp: HTTPResponse_init_def new_HTTPResponse_def)
qed

lemma example_api_reaches:
  "reachesTransport exampleEnv exampleOptions
     ((exampleRequest ''https://apis.roblox.com/v1/thing'')\<lparr> expect := x, errorHandling := y \<rparr>)"
  by (simp add: reachesTransport_def eval_dispatch eval_example)

theorem no_error_handling_witness:
  "errorHandling ((exampleRequest ''https://apis.roblox.com/v1/thing'')
                    \<lparr> expect := Some ExpectText, errorHandling := Some NoErrorHandling \<rparr>)
     = Some NoErrorHandling
   \<and> reachesTransport exampleEnv exampleOptions
        ((exampleRequest ''https://apis.roblox.com/v1/thing'')
           \<lparr> expect := Some ExpectText, errorHandling := Some NoErrorHandling \<rparr>)
   \<and> csrfRotates exampleOptions
        ((exampleRequest ''https://apis.roblox.com/v1/thing'')
           \<lparr> expect := Some ExpectText, errorHandling := Some NoErrorHandling \<rparr>)
        (exampleResponse 403 (headers_of_record [(''X-CSRF-Token'', Val ''abc'')]) ''Token Validation Failed'')
   \<and> \<not> csrfRotates exampleOptions
        ((exampleRequest ''https://apis.roblox.com/v1/thing'')
           \<lparr> expect := Some ExpectText, errorHandling := Some NoErrorHandling \<rparr>)
        (exampleResponse 404 Map.empty ''Not Found'')
   \<and> \<not> challengeAnswered exampleEnv exampleOptions
        ((exampleRequest ''https://apis.roblox.com/v1/thing'')
           \<lparr> expect := Some ExpectText, errorHandling := Some NoErrorHandling \<rparr>)
        (exampleResponse 404 Map.empty ''Not Found'')
   \<and> parseBody exampleEnv
        ((exampleRequest ''https://apis.roblox.com/v1/thing'')
           \<lparr> expect := Some ExpectText, errorHandling := Some NoErrorHandling \<rparr>)
        (exampleResponse 404 Map.empty ''Not Found'') (camelizeObject exampleOptions)
      = Inr (TextBody ''Not Found'')
   \<and> (\<exists>resp. fst (httpRequest exampleEnv exampleOptions
                    ((exampleRequest ''https://apis.roblox.com/v1/thing'')
                       \<lparr> expect := Some ExpectText, errorHandling := Some NoErrorHandling \<rparr>)
                    (exampleState
                       [Inr (exampleResponse 403 (headers_of_record [(''X-CSRF-Token'', Val ''abc'')])
                               ''Token Validation Failed''),
                        Inr (exampleResponse 404 Map.empty ''Not Found'')]))
              = Some (Inr resp)
            \<and> ok (status resp) = False \<and> code (status resp) = 404
            \<and> hr_body resp = TextBody ''Not Found'')
   \<and> (\<exists>st1. httpRequest exampleEnv exampleOptions
               ((exampleRequest ''https://apis.roblox.com/v1/thing'')
                  \<lparr> expect := Some ExpectText, errorHandling := Some NoErrorHandling \<rparr>)
               (exampleState
                  [Inr (exampleResponse 403 (headers_of_record [(''X-CSRF-Token'', Val ''abc'')])
                          ''Token Validation Failed''),
                   Inr (exampleResponse 404 Map.empty ''Not Found'')])
             = (Some (HTTPResponse_init exampleEnv
                        ((exampleRequest ''https://apis.roblox.com/v1/thing'')
                           \<lparr> expect := Some ExpectText, errorHandling := Some NoErrorHandling \<rparr>)
                        (exampleResponse 404 Map.empty ''Not Found'')
                        (parseRatelimitHeaders (res_headers (exampleResponse 404 Map.empty ''Not Found'')))
                        (camelizeObject exampleOptions)), st1)
           \<and> incoming st1 = [] \<and> length (sent st1) = 2)"
proof -
  let ?q = "(exampleRequest ''https://apis.roblox.com/v1/thing'')
              \<lparr> expect := Some ExpectText, errorHandling := Some NoErrorHandling \<rparr>"
  let ?p = "exampleResponse 403 (headers_of_record [(''X-CSRF-Token'', Val ''abc'')]) ''Token Validation Failed''"
  let ?r = "exampleResponse 404 Map.empty ''Not Found''"
  let ?st = "exampleState [Inr ?p, Inr ?r]"
  have eh: "errorHandling ?q = Some NoErrorHandling" by simp
  have re: "reachesTransport exampleEnv exampleOptions ?q" by (rule example_api_reaches)
  have i: "incoming ?st = map Inr [?p] @ Inr ?r # []" and l: "length (sent ?st) = 0"
    by (simp_all add: exampleState_def)
  have m: "isRobloxApiRequest exampleOptions ?q"
    by (simp add: isRobloxApiRequest_def eval_example)
  have hp: "headers_has (res_headers ?p) CSRF_TOKEN_HEADER_NAME"
    by (simp add: exampleResponse_def eval_headers eval_names)
  from m hp have cp: "csrfRotates exampleOptions ?q ?p"
    by (simp add: csrfRotates_def exampleResponse_def)
  then have pre: "\<forall>p \<in> set [?p]. csrfRotates exampleOptions ?q p \<or> challengeAnswered exampleEnv exampleOptions ?q p"
    by simp
  have n: "\<not> csrfRotates exampleOptions ?q ?r" "\<not> challengeAnswered exampleEnv exampleOptions ?q ?r"
    by (simp_all add: csrfRotates_def challengeAnswered_def newChallenge_def exampleResponse_def exampleRequest_def)
  have pb: "parseBody exampleEnv ?q ?r (camelizeObject exampleOptions) = Inr (TextBody ''Not Found'')"
    by (simp add: parseBody_def eval_example eval_headers)
  have r: "res_ok ?r = False" "res_status ?r = 404" by (simp_all add: exampleResponse_def)
  note t = no_error_handling [of ?q exampleEnv exampleOptions ?st "[?p]" ?r "[]"]
  from t eh re pre i n pb
  have 1: "\<exists>resp. fst (httpRequest exampleEnv exampleOptions ?q ?st) = Some (Inr resp)
                        \<and> ok (status resp) = res_ok ?r \<and> code (status resp) = res_status ?r
                        \<and> hr_body resp = TextBody ''Not Found'' \<and> hr_request resp = ?q"
    by blast
  from t eh re pre i n
  have 2: "\<exists>st1. httpRequest exampleEnv exampleOptions ?q ?st
                   = (Some (HTTPResponse_init exampleEnv ?q ?r (parseRatelimitHeaders (res_headers ?r))
                              (camelizeObject exampleOptions)), st1)
                 \<and> incoming st1 = [] \<and> length (sent st1) = length (sent ?st) + Suc (length [?p])"
    by blast
  from 1 r have 3: "\<exists>resp. fst (httpRequest exampleEnv exampleOptions ?q ?st) = Some (Inr resp)
            \<and> ok (status resp) = False \<and> code (status resp) = 404
            \<and> hr_body resp = TextBody ''Not Found''"
    by auto
  from 2 l have 4: "\<exists>st1. httpRequest exampleEnv exampleOptions ?q ?st
                   = (Some (HTTPResponse_init exampleEnv ?q ?r (parseRatelimitHeaders (res_headers ?r))
                              (camelizeObject exampleOptions)), st1)
                 \<and> incoming st1 = [] \<and> length (sent st1) = 2"
    by (simp add: numeral_2_eq_2)
  from eh re cp n pb 3 4 show ?thesis by blast
qed

lemma example_page_reaches:
  "reachesTransport exampleEnv exampleOptions
     ((exampleRequest ''https://example.com/page'')\<lparr> expect := x, errorHandling := y \<rparr>)"
  by (simp add: reachesTransport_def eval_dispatch eval_example)

lemma example_page_not_main:
  "\<not> isRobloxApiRequest exampleOptions ((exampleRequest ''https://example.com/page'')\<lparr> expect := x, errorHandling := y \<rparr>)"
  by (simp add: isRobloxApiRequest_def eval_example)

text \<open>
  Claim C4, as stated, at the example of the claim: a GET to a host that is not the main
  API host, error-handling mode \<open>none\<close>, the expected kind left unset, answered by a 404
  with the body \<open>Not Found\<close>. The body is given to \<open>JSON.parse\<close>, which throws a
  \<open>SyntaxError\<close>: the call raises.
\<close>

theorem no_error_handling_counterexample:
  "fst (httpRequest exampleEnv exampleOptions
          ((exampleRequest ''https://example.com/page'')\<lparr> errorHandling := Some NoErrorHandling \<rparr>)
          (exampleState [Inr (exampleResponse 404 Map.empty ''Not Found'')]))
   = Some (Inl (SyntaxError ''Not Found''))"
proof -
  let ?q = "(exampleRequest ''https://example.com/page'')\<lparr> errorHandling := Some NoErrorHandling \<rparr>"
  let ?r = "exampleResponse 404 Map.empty ''Not Found''"
  let ?st = "exampleState [Inr ?r]"
  have q: "?q = (exampleRequest ''https://example.com/page'')\<lparr> expect := None, errorHandling := Some NoErrorHandling \<rparr>"
    by (simp add: exampleRequest_def)
  have re: "reachesTransport exampleEnv exampleOptions ?q"
    and nm: "\<not> isRobloxApiRequest exampleOptions ?q"
    unfolding q by (rule example_page_reaches, rule example_page_not_main)
  have i: "incoming ?st = Inr ?r # []" by (simp add: exampleState_def)
  have pb: "HTTPResponse_init exampleEnv ?q ?r rl (camelizeObject exampleOptions)
              = Inl (SyntaxError ''Not Found'')" for rl
    by (simp add: HTTPResponse_init_def parseBody_def eval_example eval_headers trim_def isWhiteSpace_def)
  from httpRequest_is_loop [of exampleEnv exampleOptions ?q ?st] obtain hdrs where
    h: "httpRequest exampleEnv exampleOptions ?q ?st
          = httpRequest_loop exampleEnv exampleOptions ?q hdrs (retries ?q) ?st"
    by auto
  from not_main_host [OF nm, of ?r exampleEnv]
  have n: "\<not> csrfRotates exampleOptions ?q ?r" "\<not> challengeAnswered exampleEnv exampleOptions ?q ?r"
    by auto
  from run_returns [OF re i n, of hdrs "retries ?q"] h pb show ?thesis
    by auto
qed

subsection \<open>The orchestrator: the terminal error\<close>

text \<open>The rendering of the errors.\<close>

lemma errorAsString_concat: "errorAsString err = concat (map pairText err)"
proof -
  have "foldl (\<lambda>acc (key, v). acc @ key @ '': '' @ [CHR 0x22] @ valueAsString v @ [CHR 0x22]) acc err
          = acc @ concat (map pairText err)" for acc
    by (induction err arbitrary: acc) (auto simp: pairText_def)
  from this [of "[]"] show ?thesis by (simp add: errorAsString_def)
qed

lemma errorAsString_nonempty: "err \<noteq> [] \<Longrightarrow> errorAsString err \<noteq> []"
  by (cases err) (auto simp: errorAsString_concat pairText_def)

lemma joinWith_Cons: "joinWith sep (x # xs) = x @ concat (map (\<lambda>y. sep @ y) xs)"
  by (induction xs arbitrary: x) auto

text \<open>
  Errors without a property at the head of the list leave the accumulated text empty, so
  no separator is written for them; from the first error with a property on, every
  further error is preceded by one line feed.
\<close>

lemma errorsAsString_join:
  "errorsAsString errs
     = joinWith [CHR 0x0A] (map errorAsString (dropWhile (\<lambda>err. err = []) errs))"
proof -
  let ?f = "\<lambda>acc err. acc @ (if acc \<noteq> [] then [CHR 0x0A] else []) @ errorAsString err"
  have step: "foldl ?f acc es = acc @ concat (map (\<lambda>e. [CHR 0x0A] @ errorAsString e) es)"
    if "acc \<noteq> []" for acc es
    using that by (induction es arbitrary: acc) auto
  have "foldl ?f [] errs = joinWith [CHR 0x0A] (map errorAsString (dropWhile (\<lambda>err. err = []) errs))"
  proof (induction errs)
    case Nil
    then show ?case by simp
  next
    case (Cons e es)
    show ?case
    proof (cases "e = []")
      case True
      with Cons show ?thesis by (simp add: errorAsString_def)
    next
      case False
      then have "errorAsString e \<noteq> []" by (rule errorAsString_nonempty)
      from step [OF this, of es] False show ?thesis
        by (simp add: joinWith_Cons comp_def)
    qed
  qed
  then show ?thesis by (simp add: errorsAsString_def)
qed

lemma run_raises:
  assumes "reachesTransport env opts request" and "incoming st = Inr r # rest"
    and "errorHandling request \<noteq> Some NoErrorHandling" and "\<not> res_ok r"
    and "\<not> csrfRotates opts request r" and "\<not> challengeAnswered env opts request r"
    and "\<not> ((case budget of None \<Rightarrow> False | Some b \<Rightarrow> 0 < b) \<and> res_status r \<in> set RETRY_ERROR_CODES)"
  shows "\<exists>st1. httpRequest_loop env opts request hdrs budget st
                 = (Some (Inl (ThrownRESTError
                      \<lparr> message = errorMessage request (attempt request hdrs r) (parseErrors env request r),
                        isHttpError = True,
                        errors = Some (parseErrors env request r),
                        httpCode = Some (res_status r),
                        response = Some (attempt request hdrs r),
                        ratelimit = parseRatelimitHeaders (res_headers r) \<rparr>)), st1)
               \<and> incoming st1 = rest
               \<and> length (sent st1) = Suc (length (sent st))"
proof -
  from dispatch_answer [OF assms(1,2), of hdrs] obtain st1 where
    d: "internal_httpRequest env opts
          (request\<lparr> expect := Some ExpectNone, headers := Some (HeadersObject hdrs) \<rparr>) st
        = (Some (Inr (attempt request hdrs r)), st1)"
    and i: "incoming st1 = rest" and s: "length (sent st1) = Suc (length (sent st))"
    by auto
  have "httpRequest_loop env opts request hdrs budget st
          = (Some (Inl (ThrownRESTError
                \<lparr> message = errorMessage request (attempt request hdrs r)
                              (parseErrors env request (hr_response (attempt request hdrs r))),
                  isHttpError = True,
                  errors = Some (parseErrors env request (hr_response (attempt request hdrs r))),
                  httpCode = Some (code (status (attempt request hdrs r))),
                  response = Some (attempt request hdrs r),
                  ratelimit = parseRatelimitHeaders (hr_headers (attempt request hdrs r)) \<rparr>)), st1)"
    using assms(4-7) newChallenge_attempt [of env opts request hdrs r]
    by (intro loop_raise [OF d _ _ assms(3)]) (simp_all add: csrfRotates_def challengeAnswered_def)
  with i s show ?thesis by simp
qed

text \<open>
  Claim C3, amended. When the error-handling mode is not \<open>none\<close>, the answer is not ok and
  no retry applies (neither the token rotation, nor a challenge retry, nor a transient
  status within the budget), the loop throws one \<open>RESTError\<close> after that one attempt and
  dispatches no more. The error carries the structured errors of the parser that the mode
  selects (BEDEV2 for that mode, BEDEV1 otherwise), the status, the Typed Response of the
  attempt and the rate-limit snapshot. Its message is \<open>HTTP\<close>, the status, \<open>from\<close>, the
  method and the URL, followed, if the rendering of the errors is not empty, by an empty
  line, the line \<open><mode> errors:\<close> and the rendering. In the rendering each property of an
  error is the text \<open>key: "value"\<close>. Errors without a property at the head of the list add
  nothing to it; the errors from the first one with a property on are separated by one
  line feed, so each of them is on a line of its own, and two errors that follow one
  another have no empty line between them. \<open>httpRequest\<close> itself is this loop, started with
  the budget \<open>retries\<close> of the request.
\<close>

theorem terminal_rest_error:
  assumes "reachesTransport env opts request" and "incoming st = Inr r # rest"
    and "errorHandling request \<noteq> Some NoErrorHandling" and "\<not> res_ok r"
    and "\<not> csrfRotates opts request r" and "\<not> challengeAnswered env opts request r"
    and "\<not> ((case budget of None \<Rightarrow> False | Some b \<Rightarrow> 0 < b) \<and> res_status r \<in> set RETRY_ERROR_CODES)"
  shows "(\<exists>st1. httpRequest_loop env opts request hdrs budget st
                 = (Some (Inl (ThrownRESTError
                      \<lparr> message = errorMessage request (attempt request hdrs r) (parseErrors env request r),
                        isHttpError = True,
                        errors = Some (parseErrors env request r),
                        httpCode = Some (res_status r),
                        response = Some (attempt request hdrs r),
                        ratelimit = parseRatelimitHeaders (res_headers r) \<rparr>)), st1)
               \<and> incoming st1 = rest
               \<and> length (sent st1) = Suc (length (sent st)))
         \<and> parseErrors env request r
             = (if errorHandling request = Some BEDEV2 then parseBEDEV2Error env r
                else parseBEDEV1Error env r)
         \<and> errorMessage request (attempt request hdrs r) (parseErrors env request r)
             = ''HTTP '' @ showInt (res_status r) @ '' from ''
                 @ methodName (case method request of None \<Rightarrow> GET | Some m \<Rightarrow> m) @ '' '' @ res_url r
                 @ (if errorsAsString (parseErrors env request r) = [] then []
                    else [CHR 0x0A, CHR 0x0A]
                           @ (if errorHandling request = Some BEDEV2 then ''BEDEV2'' else ''BEDEV1'')
                           @ '' errors:'' @ [CHR 0x0A] @ errorsAsString (parseErrors env request r))
         \<and> errorsAsString (parseErrors env request r)
             = joinWith [CHR 0x0A]
                 (map (\<lambda>err. concat (map pairText err))
                    (dropWhile (\<lambda>err. err = []) (parseErrors env request r)))
         \<and> (\<forall>st0. \<exists>hdrs0. httpRequest env opts request st0
                               = httpRequest_loop env opts request hdrs0 (retries request) st0)"
proof (intro conjI impI allI)
  show "\<exists>hdrs0. httpRequest env opts request st0
                  = httpRequest_loop env opts request hdrs0 (retries request) st0" for st0
    by (rule httpRequest_is_loop)
  show "\<exists>st1. httpRequest_loop env opts request hdrs budget st
                 = (Some (Inl (ThrownRESTError
                      \<lparr> message = errorMessage request (attempt request hdrs r) (parseErrors env request r),
                        isHttpError = True,
                        errors = Some (parseErrors env request r),
                        httpCode = Some (res_status r),
                        response = Some (attempt request hdrs r),
                        ratelimit = parseRatelimitHeaders (res_headers r) \<rparr>)), st1)
               \<and> incoming st1 = rest
               \<and> length (sent st1) = Suc (length (sent st))"
    by (rule run_raises [OF assms])
  show "parseErrors env request r
             = (if errorHandling request = Some BEDEV2 then parseBEDEV2Error env r
                else parseBEDEV1Error env r)"
    using assms(3) by (cases "errorHandling request"; simp add: parseErrors_def)
       (metis ErrorHandling.exhaust)
  show "errorMessage request (attempt request hdrs r) (parseErrors env request r)
             = ''HTTP '' @ showInt (res_status r) @ '' from ''
                 @ methodName (case method request of None \<Rightarrow> GET | Some m \<Rightarrow> m) @ '' '' @ res_url r
                 @ (if errorsAsString (parseErrors env request r) = [] then []
                    else [CHR 0x0A, CHR 0x0A]
                           @ (if errorHandling request = Some BEDEV2 then ''BEDEV2'' else ''BEDEV1'')
                           @ '' errors:'' @ [CHR 0x0A] @ errorsAsString (parseErrors env request r))"
  proof -
    have "errorHandlingName (case errorHandling request of None \<Rightarrow> BEDEV1 | Some e \<Rightarrow> e)
            = (if errorHandling request = Some BEDEV2 then ''BEDEV2'' else ''BEDEV1'')"
      using assms(3) by (cases "errorHandling request"; simp) (metis ErrorHandling.exhaust errorHandlingName.simps(1))
    then show ?thesis by (simp add: errorMessage_def)
  qed
  show "errorsAsString (parseErrors env request r)
             = joinWith [CHR 0x0A]
                 (map (\<lambda>err. concat (map pairText err))
                    (dropWhile (\<lambda>err. err = []) (parseErrors env request r)))"
    using errorsAsString_join [of "parseErrors env request r"]
    by (simp add: errorAsString_concat [abs_def])
qed

lemma example_errors_reaches:
  "reachesTransport exampleEnv exampleOptions (exampleRequest ''https://example.com/page'')"
  by (simp add: reachesTransport_def eval_dispatch eval_example)

lemma example_errors_not_main:
  "\<not> isRobloxApiRequest exampleOptions (exampleRequest ''https://example.com/page'')"
  by (simp add: isRobloxApiRequest_def eval_example)

lemma example_errors_rendered:
  "errorsAsString exampleErrors
     = ''code: '' @ [CHR 0x22] @ ''1'' @ [CHR 0x22] @ ''message: '' @ [CHR 0x22] @ ''first'' @ [CHR 0x22]
       @ [CHR 0x0A]
       @ ''code: '' @ [CHR 0x22] @ ''2'' @ [CHR 0x22] @ ''message: '' @ [CHR 0x22] @ ''second'' @ [CHR 0x22]"
  by (simp add: errorsAsString_def errorAsString_def exampleErrors_def)

theorem terminal_rest_error_witness:
  "reachesTransport exampleEnv exampleOptions (exampleRequest ''https://example.com/page'')
   \<and> errorHandling (exampleRequest ''https://example.com/page'') \<noteq> Some NoErrorHandling
   \<and> \<not> res_ok (exampleResponse 400 Map.empty ''two errors'')
   \<and> \<not> csrfRotates exampleOptions (exampleRequest ''https://example.com/page'')
          (exampleResponse 400 Map.empty ''two errors'')
   \<and> \<not> challengeAnswered exampleEnv exampleOptions (exampleRequest ''https://example.com/page'')
          (exampleResponse 400 Map.empty ''two errors'')
   \<and> \<not> ((case Some 3 of None \<Rightarrow> False | Some b \<Rightarrow> (0::int) < b)
          \<and> res_status (exampleResponse 400 Map.empty ''two errors'') \<in> set RETRY_ERROR_CODES)
   \<and> thrownMessage (fst (httpRequest_loop exampleEnv exampleOptions (exampleRequest ''https://example.com/page'')
                           Map.empty (Some 3) (exampleState [Inr (exampleResponse 400 Map.empty ''two errors'')])))
      = Some (''HTTP 400 from GET https://apis.roblox.com/v1/thing'' @ [CHR 0x0A, CHR 0x0A]
              @ ''BEDEV1 errors:'' @ [CHR 0x0A] @ errorsAsString exampleErrors)
   \<and> errorsAsString exampleErrors
      = joinWith [CHR 0x0A]
          [''code: '' @ [CHR 0x22] @ ''1'' @ [CHR 0x22] @ ''message: '' @ [CHR 0x22] @ ''first'' @ [CHR 0x22],
           ''code: '' @ [CHR 0x22] @ ''2'' @ [CHR 0x22] @ ''message: '' @ [CHR 0x22] @ ''second'' @ [CHR 0x22]]"
proof -
  let ?q = "exampleRequest ''https://example.com/page''"
  let ?r = "exampleResponse 400 Map.empty ''two errors''"
  let ?st = "exampleState [Inr ?r]"
  have i: "incoming ?st = Inr ?r # []" by (simp add: exampleState_def)
  have eh: "errorHandling ?q \<noteq> Some NoErrorHandling" by (simp add: exampleRequest_def)
  have nok: "\<not> res_ok ?r" by (simp add: exampleResponse_def)
  from not_main_host [OF example_errors_not_main, of ?r exampleEnv]
  have n: "\<not> csrfRotates exampleOptions ?q ?r" "\<not> challengeAnswered exampleEnv exampleOptions ?q ?r"
    by auto
  have b: "\<not> ((case Some 3 of None \<Rightarrow> False | Some b \<Rightarrow> (0::int) < b)
               \<and> res_status ?r \<in> set RETRY_ERROR_CODES)"
    by (simp add: exampleResponse_def RETRY_ERROR_CODES_def)
  have pe: "parseErrors exampleEnv ?q ?r = exampleErrors"
    by (simp add: parseErrors_def exampleEnv_def exampleRequest_def exampleResponse_def)
  have ne: "errorsAsString exampleErrors \<noteq> []"
    by (simp add: example_errors_rendered)
  note t = terminal_rest_error [OF example_errors_reaches i eh nok n b, of Map.empty]
  from t have m: "errorMessage ?q (attempt ?q Map.empty ?r) (parseErrors exampleEnv ?q ?r)
             = ''HTTP '' @ showInt (res_status ?r) @ '' from ''
                 @ methodName (case method ?q of None \<Rightarrow> GET | Some m \<Rightarrow> m) @ '' '' @ res_url ?r
                 @ (if errorsAsString (parseErrors exampleEnv ?q ?r) = [] then []
                    else [CHR 0x0A, CHR 0x0A]
                           @ (if errorHandling ?q = Some BEDEV2 then ''BEDEV2'' else ''BEDEV1'')
                           @ '' errors:'' @ [CHR 0x0A] @ errorsAsString (parseErrors exampleEnv ?q ?r))"
    by blast
  have m': "errorMessage ?q (attempt ?q Map.empty ?r) exampleErrors
             = ''HTTP 400 from GET https://apis.roblox.com/v1/thing'' @ [CHR 0x0A, CHR 0x0A]
              @ ''BEDEV1 errors:'' @ [CHR 0x0A] @ errorsAsString exampleErrors"
    using ne
    by (subst m [unfolded pe])
       (simp add: exampleRequest_def exampleResponse_def showInt_def showNat.simps)
  from t obtain st1 where
    "httpRequest_loop exampleEnv exampleOptions ?q Map.empty (Some 3) ?st
       = (Some (Inl (ThrownRESTError
            \<lparr> message = errorMessage ?q (attempt ?q Map.empty ?r) (parseErrors exampleEnv ?q ?r),
              isHttpError = True,
              errors = Some (parseErrors exampleEnv ?q ?r),
              httpCode = Some (res_status ?r),
              response = Some (attempt ?q Map.empty ?r),
              ratelimit = parseRatelimitHeaders (res_headers ?r) \<rparr>)), st1)"
    by blast
  then have "thrownMessage (fst (httpRequest_loop exampleEnv exampleOptions ?q Map.empty (Some 3) ?st))
               = Some (errorMessage ?q (attempt ?q Map.empty ?r) exampleErrors)"
    by (simp add: pe)
  then have 1: "thrownMessage (fst (httpRequest_loop exampleEnv exampleOptions ?q Map.empty (Some 3) ?st))
      = Some (''HTTP 400 from GET https://apis.roblox.com/v1/thing'' @ [CHR 0x0A, CHR 0x0A]
              @ ''BEDEV1 errors:'' @ [CHR 0x0A] @ errorsAsString exampleErrors)"
    by (simp only: m')
  from t have "errorsAsString (parseErrors exampleEnv ?q ?r)
                = joinWith [CHR 0x0A]
                    (map (\<lambda>err. concat (map pairText err))
                       (dropWhile (\<lambda>err. err = []) (parseErrors exampleEnv ?q ?r)))"
    by blast
  then have 2: "errorsAsString exampleErrors
      = joinWith [CHR 0x0A]
          [''code: '' @ [CHR 0x22] @ ''1'' @ [CHR 0x22] @ ''message: '' @ [CHR 0x22] @ ''first'' @ [CHR 0x22],
           ''code: '' @ [CHR 0x22] @ ''2'' @ [CHR 0x22] @ ''message: '' @ [CHR 0x22] @ ''second'' @ [CHR 0x22]]"
    unfolding pe by (simp add: exampleErrors_def pairText_def)
  from example_errors_reaches eh nok n b 1 2 show ?thesis by blast
qed

text \<open>
  Claim C3, as stated, at two errors: a request to a host that is not the main API host is
  answered 400, and the BEDEV1 parser finds two errors, each with a code and a message.
  The message of the \<open>RESTError\<close> has the two errors on two consecutive lines: one line
  feed separates them, not an empty line.
\<close>

theorem terminal_rest_error_counterexample:
  "thrownMessage (fst (httpRequest exampleEnv exampleOptions (exampleRequest ''https://example.com/page'')
                         (exampleState [Inr (exampleResponse 400 Map.empty ''two errors'')])))
     = Some (''HTTP 400 from GET https://apis.roblox.com/v1/thing'' @ [CHR 0x0A, CHR 0x0A]
             @ ''BEDEV1 errors:'' @ [CHR 0x0A]
             @ ''code: '' @ [CHR 0x22] @ ''1'' @ [CHR 0x22] @ ''message: '' @ [CHR 0x22] @ ''first'' @ [CHR 0x22]
             @ [CHR 0x0A]
             @ ''code: '' @ [CHR 0x22] @ ''2'' @ [CHR 0x22] @ ''message: '' @ [CHR 0x22] @ ''second'' @ [CHR 0x22])
   \<and> thrownMessage (fst (httpRequest exampleEnv exampleOptions (exampleRequest ''https://example.com/page'')
                         (exampleState [Inr (exampleResponse 400 Map.empty ''two errors'')])))
     \<noteq> Some (''HTTP 400 from GET https://apis.roblox.com/v1/thing'' @ [CHR 0x0A, CHR 0x0A]
             @ ''BEDEV1 errors:'' @ [CHR 0x0A]
             @ ''code: '' @ [CHR 0x22] @ ''1'' @ [CHR 0x22] @ ''message: '' @ [CHR 0x22] @ ''first'' @ [CHR 0x22]
             @ [CHR 0x0A, CHR 0x0A]
             @ ''code: '' @ [CHR 0x22] @ ''2'' @ [CHR 0x22] @ ''message: '' @ [CHR 0x22] @ ''second'' @ [CHR 0x22])"
proof -
  let ?q = "exampleRequest ''https://example.com/page''"
  let ?r = "exampleResponse 400 Map.empty ''two errors''"
  let ?st = "exampleState [Inr ?r]"
  have i: "incoming ?st = Inr ?r # []" by (simp add: exampleState_def)
  have eh: "errorHandling ?q \<noteq> Some NoErrorHandling" by (simp add: exampleRequest_def)
  have nok: "\<not> res_ok ?r" by (simp add: exampleResponse_def)
  from not_main_host [OF example_errors_not_main, of ?r exampleEnv]
  have n: "\<not> csrfRotates exampleOptions ?q ?r" "\<not> challengeAnswered exampleEnv exampleOptions ?q ?r"
    by auto
  have b: "\<not> ((case retries ?q of None \<Rightarrow> False | Some b \<Rightarrow> 0 < b)
               \<and> res_status ?r \<in> set RETRY_ERROR_CODES)"
    by (simp add: exampleRequest_def)
  have pe: "parseErrors exampleEnv ?q ?r = exampleErrors"
    by (simp add: parseErrors_def exampleEnv_def exampleRequest_def exampleResponse_def)
  have m: "errorMessage ?q (attempt ?q hdrs ?r) exampleErrors
             = ''HTTP 400 from GET https://apis.roblox.com/v1/thing'' @ [CHR 0x0A, CHR 0x0A]
              @ ''BEDEV1 errors:'' @ [CHR 0x0A] @ errorsAsString exampleErrors" for hdrs
    by (simp add: errorMessage_def example_errors_rendered exampleRequest_def exampleResponse_def
          showInt_def showNat.simps)
  from httpRequest_is_loop [of exampleEnv exampleOptions ?q ?st] obtain hdrs where
    h: "httpRequest exampleEnv exampleOptions ?q ?st
          = httpRequest_loop exampleEnv exampleOptions ?q hdrs (retries ?q) ?st"
    by auto
  from run_raises [OF example_errors_reaches i eh nok n b, of hdrs] h
  have "thrownMessage (fst (httpRequest exampleEnv exampleOptions ?q ?st))
          = Some (errorMessage ?q (attempt ?q hdrs ?r) (parseErrors exampleEnv ?q ?r))"
    by auto
  then have "thrownMessage (fst (httpRequest exampleEnv exampleOptions ?q ?st))
          = Some (errorMessage ?q (attempt ?q hdrs ?r) exampleErrors)"
    by (simp only: pe)
  then show ?thesis
    by (simp only: m example_errors_rendered) simp
qed

subsection \<open>The orchestrator: the token rotation\<close>

lemma headers_set_get_same: "headers_get (headers_set h CSRF_TOKEN_HEADER_NAME v) CSRF_TOKEN_HEADER_NAME = Some v"
  by (simp add: headers_get_def headers_set_def)

lemma headers_set_get_user_agent:
  "headers_get (headers_set h USER_AGENT_HEADER_NAME v) CSRF_TOKEN_HEADER_NAME
     = headers_get h CSRF_TOKEN_HEADER_NAME"
  by (simp add: headers_get_def headers_set_def USER_AGENT_HEADER_NAME_def CSRF_TOKEN_HEADER_NAME_def
        lowerCase_def lowerChar_def)

lemma headers_set_get_content_type:
  "headers_get (headers_set h ''content-type'' v) CSRF_TOKEN_HEADER_NAME
     = headers_get h CSRF_TOKEN_HEADER_NAME"
  by (simp add: headers_get_def headers_set_def CSRF_TOKEN_HEADER_NAME_def lowerCase_def lowerChar_def)

text \<open>Without a signer, the header assembler leaves the token of the collection in place.\<close>

lemma handleRequestHeaders_keeps_token:
  "hbaClient opts = None \<Longrightarrow>
   headers_get (handleRequestHeaders opts (request\<lparr> expect := x, headers := Some (HeadersObject h) \<rparr>) ct nb)
     CSRF_TOKEN_HEADER_NAME
   = headers_get h CSRF_TOKEN_HEADER_NAME"
  by (simp add: handleRequestHeaders_def new_Headers_def Let_def headers_set_get_user_agent
        headers_set_get_content_type split: option.splits)

lemma run_rotates:
  assumes "reachesTransport env opts request" and "incoming st = Inr r # rest"
    and "isRobloxApiRequest opts request" and "res_status r = 403"
    and "headers_get (res_headers r) CSRF_TOKEN_HEADER_NAME = Some tok"
  shows "\<exists>st1. httpRequest_loop env opts request hdrs budget st
                 = httpRequest_loop env opts request (headers_set hdrs CSRF_TOKEN_HEADER_NAME tok) budget st1
               \<and> csrfTokens st1 = setCsrfToken env (csrfTokens st) (TokenString tok)
                                     (includeCredentials request) (accountToken request)
               \<and> incoming st1 = rest
               \<and> length (sent st1) = Suc (length (sent st))"
proof -
  from dispatch_answer [OF assms(1,2), of hdrs] obtain st1 where
    d: "internal_httpRequest env opts
          (request\<lparr> expect := Some ExpectNone, headers := Some (HeadersObject hdrs) \<rparr>) st
        = (Some (Inr (attempt request hdrs r)), st1)"
    and i: "incoming st1 = rest" and s: "length (sent st1) = Suc (length (sent st))"
    and c: "csrfTokens st1 = csrfTokens st"
    by auto
  let ?st = "st1\<lparr> csrfTokens := setCsrfToken env (csrfTokens st1) (TokenString tok)
                                       (includeCredentials request) (accountToken request) \<rparr>"
  from loop_csrf [OF d assms(3), of tok budget] assms(4,5)
  have "httpRequest_loop env opts request hdrs budget st
          = httpRequest_loop env opts request (headers_set hdrs CSRF_TOKEN_HEADER_NAME tok) budget ?st"
    by simp
  with i s c show ?thesis
    by (intro exI [of _ ?st]) simp
qed

text \<open>
  Claim C2. Let a request to the main API host reach the transport, and let the answer of
  an attempt have status 403 and a CSRF-token header with the value \<open>tok\<close>. Then, whatever
  the header collection and the retry budget of the loop are at that point, the loop goes
  on as the loop from the state after the attempt in which \<open>setCsrfToken\<close> has written
  \<open>tok\<close> to the store (so the anonymous slot holds it), with \<open>tok\<close> set on the header
  collection and with the same budget. The loop starts with an attempt, so this is a
  redispatch; unless a signer is configured, the headers assembled for it carry \<open>tok\<close>.
  \<open>httpRequest\<close> itself is this loop, started with the budget \<open>retries\<close> of the request.
\<close>

theorem csrf_rotation:
  assumes "reachesTransport env opts request" and "incoming st = Inr r # rest"
    and "isRobloxApiRequest opts request" and "res_status r = 403"
    and "headers_get (res_headers r) CSRF_TOKEN_HEADER_NAME = Some tok"
  shows "(\<exists>st1. httpRequest_loop env opts request hdrs budget st
                 = httpRequest_loop env opts request (headers_set hdrs CSRF_TOKEN_HEADER_NAME tok) budget st1
               \<and> csrfTokens st1 = setCsrfToken env (csrfTokens st) (TokenString tok)
                                     (includeCredentials request) (accountToken request)
               \<and> ip (csrfTokens st1) = TokenString tok
               \<and> incoming st1 = rest
               \<and> length (sent st1) = Suc (length (sent st)))
         \<and> headers_get (headers_set hdrs CSRF_TOKEN_HEADER_NAME tok) CSRF_TOKEN_HEADER_NAME = Some tok
         \<and> (hbaClient opts = None \<longrightarrow>
              (\<forall>ct nb. headers_get
                         (handleRequestHeaders opts
                            (request\<lparr> expect := Some ExpectNone,
                                      headers := Some (HeadersObject (headers_set hdrs CSRF_TOKEN_HEADER_NAME tok)) \<rparr>)
                            ct nb)
                         CSRF_TOKEN_HEADER_NAME = Some tok))
         \<and> (\<forall>st0. \<exists>hdrs0. httpRequest env opts request st0
                               = httpRequest_loop env opts request hdrs0 (retries request) st0)"
proof (intro conjI impI allI)
  show "\<exists>hdrs0. httpRequest env opts request st0
                  = httpRequest_loop env opts request hdrs0 (retries request) st0" for st0
    by (rule httpRequest_is_loop)
  from run_rotates [OF assms, of hdrs budget]
  show "\<exists>st1. httpRequest_loop env opts request hdrs budget st
                 = httpRequest_loop env opts request (headers_set hdrs CSRF_TOKEN_HEADER_NAME tok) budget st1
               \<and> csrfTokens st1 = setCsrfToken env (csrfTokens st) (TokenString tok)
                                     (includeCredentials request) (accountToken request)
               \<and> ip (csrfTokens st1) = TokenString tok
               \<and> incoming st1 = rest
               \<and> length (sent st1) = Suc (length (sent st))"
    by (auto simp: setCsrfToken_def Let_def)
  show "headers_get (headers_set hdrs CSRF_TOKEN_HEADER_NAME tok) CSRF_TOKEN_HEADER_NAME = Some tok"
    by (rule headers_set_get_same)
  show "headers_get
          (handleRequestHeaders opts
             (request\<lparr> expect := Some ExpectNone,
                       headers := Some (HeadersObject (headers_set hdrs CSRF_TOKEN_HEADER_NAME tok)) \<rparr>)
             ct nb)
          CSRF_TOKEN_HEADER_NAME = Some tok"
    if "hbaClient opts = None" for ct nb
    using handleRequestHeaders_keeps_token [OF that] by (simp add: headers_set_get_same)
qed

lemma example_post_reaches:
  "reachesTransport exampleEnv exampleOptions
     ((exampleRequest ''https://apis.roblox.com/v1/thing'')\<lparr> method := Some POST \<rparr>)"
  by (simp add: reachesTransport_def eval_dispatch eval_example)

theorem csrf_rotation_witness:
  "reachesTransport exampleEnv exampleOptions
     ((exampleRequest ''https://apis.roblox.com/v1/thing'')\<lparr> method := Some POST \<rparr>)
   \<and> isRobloxApiRequest exampleOptions ((exampleRequest ''https://apis.roblox.com/v1/thing'')\<lparr> method := Some POST \<rparr>)
   \<and> res_status (exampleResponse 403 (headers_of_record [(''X-CSRF-Token'', Val ''abc'')]) []) = 403
   \<and> headers_get (res_headers (exampleResponse 403 (headers_of_record [(''X-CSRF-Token'', Val ''abc'')]) []))
        CSRF_TOKEN_HEADER_NAME = Some ''abc''
   \<and> hbaClient exampleOptions = None
   \<and> headers_get
        (handleRequestHeaders exampleOptions
           ((exampleRequest ''https://apis.roblox.com/v1/thing'')
              \<lparr> method := Some POST, expect := Some ExpectNone,
                headers := Some (HeadersObject (headers_set Map.empty CSRF_TOKEN_HEADER_NAME ''abc'')) \<rparr>)
           None None)
        CSRF_TOKEN_HEADER_NAME = Some ''abc''
   \<and> (\<exists>st'. httpRequest_loop exampleEnv exampleOptions
               ((exampleRequest ''https://apis.roblox.com/v1/thing'')\<lparr> method := Some POST \<rparr>) Map.empty None
               (exampleState [Inr (exampleResponse 403 (headers_of_record [(''X-CSRF-Token'', Val ''abc'')]) []),
                              Inr (exampleResponse 200 Map.empty ''{}'')])
             = (Some (Inr (new_HTTPResponse
                  ((exampleRequest ''https://apis.roblox.com/v1/thing'')\<lparr> method := Some POST \<rparr>)
                  (exampleResponse 200 Map.empty ''{}'') (JsonBody (JObject [])) None)), st')
           \<and> ip (csrfTokens st') = TokenString ''abc''
           \<and> length (sent st') = 2)"
proof -
  let ?q = "(exampleRequest ''https://apis.roblox.com/v1/thing'')\<lparr> method := Some POST \<rparr>"
  let ?r = "exampleResponse 403 (headers_of_record [(''X-CSRF-Token'', Val ''abc'')]) []"
  let ?good = "exampleResponse 200 Map.empty ''{}''"
  let ?st = "exampleState [Inr ?r, Inr ?good]"
  let ?h = "headers_set Map.empty CSRF_TOKEN_HEADER_NAME ''abc''"
  have m: "isRobloxApiRequest exampleOptions ?q"
    by (simp add: isRobloxApiRequest_def eval_example)
  have s: "res_status ?r = 403" by (simp add: exampleResponse_def)
  have h: "headers_get (res_headers ?r) CSRF_TOKEN_HEADER_NAME = Some ''abc''"
    by (simp add: exampleResponse_def eval_headers eval_names)
  have i: "incoming ?st = Inr ?r # [Inr ?good]" by (simp add: exampleState_def)
  have l: "length (sent ?st) = 0" by (simp add: exampleState_def)
  have nos: "hbaClient exampleOptions = None" by (simp add: exampleOptions_def)
  note t = csrf_rotation [OF example_post_reaches i m s h, of Map.empty None]
  from t nos have k: "headers_get
        (handleRequestHeaders exampleOptions
           (?q\<lparr> expect := Some ExpectNone, headers := Some (HeadersObject ?h) \<rparr>) None None)
        CSRF_TOKEN_HEADER_NAME = Some ''abc''"
    by blast
  from t obtain st1 where
    a: "httpRequest_loop exampleEnv exampleOptions ?q Map.empty None ?st
          = httpRequest_loop exampleEnv exampleOptions ?q ?h None st1"
    and t1: "ip (csrfTokens st1) = TokenString ''abc''"
    and i1: "incoming st1 = Inr ?good # []" and s1: "length (sent st1) = Suc (length (sent ?st))"
    by blast
  have g: "\<not> csrfRotates exampleOptions ?q ?good"
      "\<not> challengeAnswered exampleEnv exampleOptions ?q ?good" "res_ok ?good"
    by (simp_all add: csrfRotates_def challengeAnswered_def newChallenge_def exampleResponse_def exampleRequest_def)
  have rl: "parseRatelimitHeaders (res_headers ?good) = None"
    by (simp add: parseRatelimitHeaders_def headers_has_def exampleResponse_def)
  have pb: "HTTPResponse_init exampleEnv ?q ?good None (camelizeObject exampleOptions)
              = Inr (new_HTTPResponse ?q ?good (JsonBody (JObject [])) None)"
    by (simp add: HTTPResponse_init_def parseBody_def eval_example eval_headers trim_def isWhiteSpace_def)
  from dispatch_answer [OF example_post_reaches i1, of ?h]
  obtain st2 where
    d: "internal_httpRequest exampleEnv exampleOptions
          (?q\<lparr> expect := Some ExpectNone, headers := Some (HeadersObject ?h) \<rparr>) st1
        = (Some (Inr (attempt ?q ?h ?good)), st2)"
    and c2: "csrfTokens st2 = csrfTokens st1" and s2: "length (sent st2) = Suc (length (sent st1))"
    by auto
  have "httpRequest_loop exampleEnv exampleOptions ?q ?h None st1
          = (Some (HTTPResponse_init exampleEnv ?q (hr_response (attempt ?q ?h ?good))
                     (parseRatelimitHeaders (hr_headers (attempt ?q ?h ?good)))
                     (camelizeObject exampleOptions)), st2)"
    using g by (intro loop_return [OF d]) (simp_all add: csrfRotates_def newChallenge_def)
  with a rl pb t1 c2 s1 s2 l
  have "\<exists>st'. httpRequest_loop exampleEnv exampleOptions ?q Map.empty None ?st
             = (Some (Inr (new_HTTPResponse ?q ?good (JsonBody (JObject [])) None)), st')
           \<and> ip (csrfTokens st') = TokenString ''abc''
           \<and> length (sent st') = 2"
    by (intro exI [of _ st2]) simp
  with example_post_reaches m s h nos k show ?thesis
    by blast
qed

subsection \<open>The descriptor of the caller\<close>

text \<open>
  Claim C5, at a caller-supplied \<open>URLSearchParams\<close>. The client has a tracking parameter
  \<open>t\<close>; the request goes to a host that is not the CDN host and its \<open>search\<close> is the
  object of the caller, which holds \<open>a=1\<close>. \<open>formatRequestUrl\<close> sets the tracking
  parameter on that very object: after \<open>formatRequestUrl\<close>, and after \<open>httpRequest\<close>, the
  object of the caller holds \<open>a=1&t=\<close>.
\<close>

theorem caller_search_params_mutated:
  "formatRequestUrl exampleEnv trackingOptions searchRequest ''https'' [[(''a'', ''1'')]]
     = (Inr (exampleURL ''example.com'' ''/page'' [(''a'', ''1''), (''t'', [])]),
        [[(''a'', ''1''), (''t'', [])]])
   \<and> heap (snd (httpRequest exampleEnv trackingOptions searchRequest
                   ((exampleState [Inr (exampleResponse 200 Map.empty ''{}'')])\<lparr> heap := [[(''a'', ''1'')]] \<rparr>)))
     = [[(''a'', ''1''), (''t'', [])]]"
proof -
  let ?good = "exampleResponse 200 Map.empty ''{}''"
  let ?st = "(exampleState [Inr ?good])\<lparr> heap := [[(''a'', ''1'')]] \<rparr>"
  have f: "formatRequestUrl exampleEnv trackingOptions searchRequest ''https'' [[(''a'', ''1'')]]
     = (Inr (exampleURL ''example.com'' ''/page'' [(''a'', ''1''), (''t'', [])]),
        [[(''a'', ''1''), (''t'', [])]])"
    by (simp add: trackingOptions_def searchRequest_def eval_dispatch eval_example truthyAccount.simps)
  have h: "httpRequest exampleEnv trackingOptions searchRequest ?st
             = httpRequest_loop exampleEnv trackingOptions searchRequest Map.empty None ?st"
    by (simp add: httpRequest_def isRobloxApiRequest_def new_Headers_def trackingOptions_def
          searchRequest_def eval_example)
  obtain x st1 where d0: "internal_httpRequest exampleEnv trackingOptions
             (searchRequest\<lparr> expect := Some ExpectNone, headers := Some (HeadersObject Map.empty) \<rparr>) ?st
           = (x, st1)"
    by (cases "internal_httpRequest exampleEnv trackingOptions
             (searchRequest\<lparr> expect := Some ExpectNone, headers := Some (HeadersObject Map.empty) \<rparr>) ?st")
  then have x: "x = Some (Inr (attempt searchRequest Map.empty ?good))"
    and hp: "heap st1 = [[(''a'', ''1''), (''t'', [])]]"
    by (auto simp: trackingOptions_def searchRequest_def eval_dispatch eval_example)
  have g: "\<not> isRobloxApiRequest trackingOptions searchRequest" "res_ok ?good"
    by (simp_all add: isRobloxApiRequest_def trackingOptions_def searchRequest_def eval_example)
  have "httpRequest_loop exampleEnv trackingOptions searchRequest Map.empty None ?st
          = (Some (HTTPResponse_init exampleEnv searchRequest
                     (hr_response (attempt searchRequest Map.empty ?good))
                     (parseRatelimitHeaders (hr_headers (attempt searchRequest Map.empty ?good)))
                     (camelizeObject trackingOptions)), st1)"
    using g d0 [unfolded x] by (intro loop_return) (simp_all add: newChallenge_def)
  with h hp f show ?thesis by simp
qed

end
